theory Spec2Isabelle
  imports Complex_Main
begin

section \<open>The SageForge backtest front end: session controller\<close>

text \<open>
  The development embeds the session controller of the front end: the application
  object of \<^verbatim>\<open>frontend/js/app.js\<close> (class \<^verbatim>\<open>SageForgeApp\<close>), the
  \<^verbatim>\<open>UIHandler\<close> and the \<^verbatim>\<open>ApiService\<close> it drives, and the controller and the
  display functions of the stand-alone variant \<^verbatim>\<open>frontend/js/main.js\<close>.  The page is single threaded:
  every handler runs to completion, so a handler is a function from the state of the
  page to the next state.  An \<^verbatim>\<open>async\<close> method is cut at its \<^verbatim>\<open>await\<close>: the
  part before it and the part that resumes with the response are two functions.
\<close>

subsection \<open>Numbers read from text\<close>

text \<open>
  A JavaScript number as the controller meets it: \<^verbatim>\<open>NaN\<close>, an infinity, or a
  finite value.  Finite values are kept as exact reals; rounding to binary64 is not
  modelled.
\<close>

datatype jsnum = NaN | PosInfinity | NegInfinity | Num real

text \<open>\<^verbatim>\<open>x > 0\<close> on a number: false on \<^verbatim>\<open>NaN\<close>.\<close>

fun gt0 :: "jsnum \<Rightarrow> bool" where
  "gt0 NaN = False"
| "gt0 PosInfinity = True"
| "gt0 NegInfinity = False"
| "gt0 (Num x) = (0 < x)"

definition is_ws :: "char \<Rightarrow> bool" where
  "is_ws c = (c \<in> set [CHR '' '', CHR 0x09, CHR 0x0A, CHR 0x0B, CHR 0x0C, CHR 0x0D])"

definition is_digit :: "char \<Rightarrow> bool" where
  "is_digit c = (c \<in> set ''0123456789'')"

definition digit_val :: "char \<Rightarrow> nat" where
  "digit_val c = of_char c - 48"

definition digits_val :: "string \<Rightarrow> nat" where
  "digits_val ds = foldl (\<lambda>a c. 10 * a + digit_val c) 0 ds"

definition scale10 :: "nat \<Rightarrow> int \<Rightarrow> real" where
  "scale10 m e = (if 0 \<le> e then real m * 10 ^ nat e else real m / 10 ^ nat (- e))"

text \<open>
  The exponent part of a decimal literal: \<^verbatim>\<open>e\<close> or \<^verbatim>\<open>E\<close>, an optional sign and
  at least one digit; anything else is not part of the number and counts as exponent 0.
\<close>

definition exponent :: "string \<Rightarrow> int" where
  "exponent r =
     (if r \<noteq> [] \<and> (hd r = CHR ''e'' \<or> hd r = CHR ''E'') then
        (let s = tl r;
             neg = (s \<noteq> [] \<and> hd s = CHR ''-'');
             d = (if s \<noteq> [] \<and> (hd s = CHR ''-'' \<or> hd s = CHR ''+'') then tl s else s);
             ds = takeWhile is_digit d
         in if ds = [] then 0
            else if neg then - int (digits_val ds) else int (digits_val ds))
      else 0)"

text \<open>
  The built-in \<^verbatim>\<open>parseFloat\<close>: leading white space is skipped, then the longest
  prefix that is a decimal literal (sign, \<^verbatim>\<open>Infinity\<close>, digits, fraction, exponent)
  is read; \<^verbatim>\<open>NaN\<close> when there is none.
\<close>

definition parseFloat :: "string \<Rightarrow> jsnum" where
  "parseFloat s =
     (let t = dropWhile is_ws s;
          neg = (t \<noteq> [] \<and> hd t = CHR ''-'');
          u = (if t \<noteq> [] \<and> (hd t = CHR ''-'' \<or> hd t = CHR ''+'') then tl t else t)
      in if take 8 u = ''Infinity'' then (if neg then NegInfinity else PosInfinity)
         else
           (let ip = takeWhile is_digit u;
                r1 = dropWhile is_digit u;
                hasdot = (r1 \<noteq> [] \<and> hd r1 = CHR ''.'');
                fp = (if hasdot then takeWhile is_digit (tl r1) else []);
                r2 = (if hasdot then dropWhile is_digit (tl r1) else r1)
            in if ip = [] \<and> fp = [] then NaN
               else Num ((if neg then - 1 else 1) *
                         scale10 (digits_val (ip @ fp)) (exponent r2 - int (length fp)))))"

subsection \<open>Dates\<close>

text \<open>
  A \<^verbatim>\<open>Date\<close> is its time value: milliseconds since 1970-01-01T00:00:00Z.  The
  day and year arithmetic is that of the language standard.  The host's time zone is
  the offset \<open>tza\<close> it starts with (milliseconds east of UTC) and the list of its
  changes: the instants, in ascending order, at which the offset becomes another one
  (daylight-saving time begins or ends).
\<close>

definition msPerDay :: int where
  "msPerDay = 86400000"

definition Day :: "int \<Rightarrow> int" where
  "Day t = t div msPerDay"

definition TimeWithinDay :: "int \<Rightarrow> int" where
  "TimeWithinDay t = t mod msPerDay"

definition DaysInYear :: "int \<Rightarrow> int" where
  "DaysInYear y =
     (if y mod 4 \<noteq> 0 then 365 else if y mod 100 \<noteq> 0 then 366
      else if y mod 400 \<noteq> 0 then 365 else 366)"

definition DayFromYear :: "int \<Rightarrow> int" where
  "DayFromYear y =
     365 * (y - 1970) + (y - 1969) div 4 - (y - 1901) div 100 + (y - 1601) div 400"

text \<open>The year of a day number: an estimate from the mean year length, put right by one.\<close>

definition YearFromDay :: "int \<Rightarrow> int" where
  "YearFromDay d =
     (let y = 1970 + (d * 400) div 146097
      in if d < DayFromYear y then y - 1
         else if DayFromYear (y + 1) \<le> d then y + 1 else y)"

definition YearFromTime :: "int \<Rightarrow> int" where
  "YearFromTime t = YearFromDay (Day t)"

definition InLeapYear :: "int \<Rightarrow> int" where
  "InLeapYear t = (if DaysInYear (YearFromTime t) = 366 then 1 else 0)"

definition DayWithinYear :: "int \<Rightarrow> int" where
  "DayWithinYear t = Day t - DayFromYear (YearFromTime t)"

text \<open>The first day of month \<open>m\<close> (0 to 11) within a year; \<open>l\<close> is 1 in a leap year.\<close>

definition monthStart :: "int \<Rightarrow> int \<Rightarrow> int" where
  "monthStart l m =
     (if m = 0 then 0 else if m = 1 then 31
      else [59, 90, 120, 151, 181, 212, 243, 273, 304, 334] ! nat (m - 2) + l)"

definition MonthFromTime :: "int \<Rightarrow> int" where
  "MonthFromTime t =
     (let d = DayWithinYear t; l = InLeapYear t
      in if d < 31 then 0 else if d < 59 + l then 1 else if d < 90 + l then 2
         else if d < 120 + l then 3 else if d < 151 + l then 4 else if d < 181 + l then 5
         else if d < 212 + l then 6 else if d < 243 + l then 7 else if d < 273 + l then 8
         else if d < 304 + l then 9 else if d < 334 + l then 10 else 11)"

definition DateFromTime :: "int \<Rightarrow> int" where
  "DateFromTime t = DayWithinYear t - monthStart (InLeapYear t) (MonthFromTime t) + 1"

definition MakeDay :: "int \<Rightarrow> int \<Rightarrow> int \<Rightarrow> int" where
  "MakeDay year month date =
     (let ym = year + month div 12; mn = month mod 12
      in DayFromYear ym + monthStart (if DaysInYear ym = 366 then 1 else 0) mn + date - 1)"

definition MakeDate :: "int \<Rightarrow> int \<Rightarrow> int" where
  "MakeDate day time = day * msPerDay + time"

text \<open>The offset in force at an instant (the standard's local time zone adjustment of
  a UTC time).\<close>

fun offset_at :: "int \<Rightarrow> (int \<times> int) list \<Rightarrow> int \<Rightarrow> int" where
  "offset_at off [] t = off"
| "offset_at off ((u, off') # cs) t = (if t < u then off else offset_at off' cs t)"

text \<open>
  The offset with which a local time is read.  A local time that a change skips, or
  that a change makes occur twice, is read with the offset before the change.
\<close>

fun offset_of_local :: "int \<Rightarrow> (int \<times> int) list \<Rightarrow> int \<Rightarrow> int" where
  "offset_of_local off [] lt = off"
| "offset_of_local off ((u, off') # cs) lt =
     (if lt < u + max off off' then off else offset_of_local off' cs lt)"

definition LocalTime :: "int \<Rightarrow> (int \<times> int) list \<Rightarrow> int \<Rightarrow> int" where
  "LocalTime tza cs t = t + offset_at tza cs t"

definition UTC :: "int \<Rightarrow> (int \<times> int) list \<Rightarrow> int \<Rightarrow> int" where
  "UTC tza cs lt = lt - offset_of_local tza cs lt"

text \<open>\<^verbatim>\<open>getDate\<close> and \<^verbatim>\<open>setDate\<close> work in local time: \<^verbatim>\<open>setDate\<close> keeps the
  local time of day and reads the new local time with the offset of its own date.\<close>

definition getDate :: "int \<Rightarrow> (int \<times> int) list \<Rightarrow> int \<Rightarrow> int" where
  "getDate tza cs t = DateFromTime (LocalTime tza cs t)"

definition setDate :: "int \<Rightarrow> (int \<times> int) list \<Rightarrow> int \<Rightarrow> int \<Rightarrow> int" where
  "setDate tza cs t dt =
     (let lt = LocalTime tza cs t;
          newDate = MakeDate (MakeDay (YearFromTime lt) (MonthFromTime lt) dt) (TimeWithinDay lt)
      in UTC tza cs newDate)"

fun show_nat :: "nat \<Rightarrow> string" where
  "show_nat n =
     (if n < 10 then [''0123456789'' ! n]
      else show_nat (n div 10) @ [''0123456789'' ! (n mod 10)])"

declare show_nat.simps [simp del]

definition pad :: "nat \<Rightarrow> nat \<Rightarrow> string" where
  "pad w n = replicate (w - length (show_nat n)) (CHR ''0'') @ show_nat n"

text \<open>The date part of the ISO format, \<^verbatim>\<open>YYYY-MM-DD\<close>, of a day number.\<close>

definition isoYear :: "int \<Rightarrow> string" where
  "isoYear y =
     (if 0 \<le> y \<and> y \<le> 9999 then pad 4 (nat y)
      else (if y < 0 then ''-'' else ''+'') @ pad 6 (nat \<bar>y\<bar>))"

definition isoDate :: "int \<Rightarrow> string" where
  "isoDate d =
     (let t = d * msPerDay
      in isoYear (YearFromTime t) @ ''-'' @ pad 2 (nat (MonthFromTime t + 1)) @ ''-'' @
         pad 2 (nat (DateFromTime t)))"

definition toISOString :: "int \<Rightarrow> string" where
  "toISOString t =
     (let ms = TimeWithinDay t
      in isoDate (Day t) @ ''T'' @ pad 2 (nat (ms div 3600000)) @ '':'' @
         pad 2 (nat (ms div 60000 mod 60)) @ '':'' @ pad 2 (nat (ms div 1000 mod 60)) @ ''.'' @
         pad 3 (nat (ms mod 1000)) @ ''Z'')"

text \<open>\<^verbatim>\<open>s.split('T')[0]\<close>: the text before the first \<^verbatim>\<open>T\<close>.\<close>

definition split_T_0 :: "string \<Rightarrow> string" where
  "split_T_0 s = takeWhile (\<lambda>c. c \<noteq> CHR ''T'') s"

text \<open>
  \<^verbatim>\<open>new Date(s)\<close> on the value of a date input, \<^verbatim>\<open>YYYY-MM-DD\<close>: midnight UTC of
  that day.  Any other text, and a day that the month does not have, is an invalid
  date (\<open>None\<close>; its number is \<^verbatim>\<open>NaN\<close>).
\<close>

definition newDate :: "string \<Rightarrow> int option" where
  "newDate s =
     (if length s = 10 \<and> s ! 4 = CHR ''-'' \<and> s ! 7 = CHR ''-'' \<and>
         list_all is_digit (take 4 s) \<and> list_all is_digit (take 2 (drop 5 s)) \<and>
         list_all is_digit (drop 8 s)
      then
        (let y = int (digits_val (take 4 s));
             m = int (digits_val (take 2 (drop 5 s)));
             d = int (digits_val (drop 8 s))
         in if 1 \<le> m \<and> m \<le> 12 \<and> 1 \<le> d \<and> d \<le> MakeDay y m 1 - MakeDay y (m - 1) 1
            then Some (MakeDate (MakeDay y (m - 1) d) 0) else None)
      else None)"

text \<open>\<^verbatim>\<open>a >= b\<close> and \<^verbatim>\<open>a < b\<close> on two dates: false as soon as one is invalid.\<close>

fun date_ge :: "int option \<Rightarrow> int option \<Rightarrow> bool" where
  "date_ge (Some a) (Some b) = (b \<le> a)"
| "date_ge _ _ = False"

fun date_lt :: "int option \<Rightarrow> int option \<Rightarrow> bool" where
  "date_lt (Some a) (Some b) = (a < b)"
| "date_lt _ _ = False"

subsection \<open>Data\<close>

text \<open>An instrument of the catalogue, as \<^verbatim>\<open>/api/stocks\<close> returns it.\<close>

record instrument =
  symbol :: string
  name :: string
  sector :: string

text \<open>
  The request object built by \<^verbatim>\<open>startBacktest\<close>.  Its \<^verbatim>\<open>stocks\<close> is the
  selection array itself, not a copy, so the record is polymorphic in what stands for
  the array: its address while the object lives in memory, its elements once
  \<^verbatim>\<open>JSON.stringify\<close> has written the object into a request body.
\<close>

record 'a params =
  stocks :: 'a
  strategy :: string
  target_percent :: jsnum
  stop_loss_percent :: jsnum
  start_date :: string
  end_date :: string
  timeframe :: string

text \<open>
  A trade of the result payload.  The payload is JSON from the server, so any field may
  be missing (\<open>None\<close>, what JavaScript reads as \<^verbatim>\<open>undefined\<close>); a field that is
  present has the type the backend gives it.
\<close>

record trade =
  stock :: "string option"
  pattern_time :: "string option"
  exit_time_formatted :: "string option"
  entry_price :: "real option"
  exit_price :: "real option"
  outcome :: "string option"
  points_gained :: "real option"
  percentage_gain :: "real option"
  minutes_held :: "real option"
  candles_held :: "real option"

text \<open>
  The result payload: the aggregates and the trade list read by \<^verbatim>\<open>UIHandler\<close>
  (\<^verbatim>\<open>trades\<close>) and those read by \<^verbatim>\<open>main.js\<close> (\<^verbatim>\<open>detailed_trades\<close>; its
  \<^verbatim>\<open>strategy\<close>, \<^verbatim>\<open>period\<close>, \<^verbatim>\<open>timeframe\<close>, \<^verbatim>\<open>target_percent\<close> and
  \<^verbatim>\<open>stop_loss_percent\<close> carry the prefix \<open>res_\<close> here).
\<close>

record results =
  target_hit_rate :: "real option"
  target_hit_count :: "real option"
  stop_loss_rate :: "real option"
  stop_loss_count :: "real option"
  eod_exit_count :: "real option"
  total_patterns :: "real option"
  avg_return :: "real option"
  trades :: "trade list option"
  profit_rate :: "real option"
  safe_rate :: "real option"
  res_target_percent :: "real option"
  res_stop_loss_percent :: "real option"
  res_strategy :: "string option"
  res_period :: "string option"
  res_timeframe :: "string option"
  stocks_analyzed :: "real option"
  detailed_trades :: "trade list option"

text \<open>A request sent with \<^verbatim>\<open>fetch\<close>: the path under the API base and the JSON body.\<close>

record fetch_call =
  endpoint :: string
  body :: "string list params"

text \<open>A row of the results table of \<^verbatim>\<open>UIHandler.renderTradesTable\<close>: the trade
  whose fields the row interpolates as they are, the badge class and the badge label.\<close>

record table_row =
  row_trade :: trade
  row_outcome_class :: string
  row_outcome_label :: "string option"

text \<open>How the wait for the response of \<^verbatim>\<open>/api/backtest\<close> ends: a 2xx answer with
  its payload, another status with the \<^verbatim>\<open>detail\<close> of its body (if any), or a
  failure of the transport with the message of the error thrown.\<close>

datatype response = Ok results | Not_ok "string option" | Transport_error string

subsection \<open>The state of the page\<close>

text \<open>
  One record holds what the handlers read and write:
  \<^item> \<^verbatim>\<open>app.state\<close> (\<open>allStocks\<close> to \<open>lastBacktestParams\<close>).  \<open>selectedStocks\<close>
    is the address of the selection array in \<open>arrays\<close>; \<open>selectedPeriodMonths\<close> is
    \<open>None\<close> when \<^verbatim>\<open>parseInt\<close> gave \<^verbatim>\<open>NaN\<close>;
  \<^item> \<^verbatim>\<open>apiService.lastBacktestResults\<close> and \<^verbatim>\<open>uiHandler.progressInterval\<close>
    (\<open>None\<close>: \<^verbatim>\<open>null\<close> or not yet assigned);
  \<^item> the properties of the page's elements that the code reads or writes, each under
    the element's id;
  \<^item> the host: the alerts shown, the live interval timers with the \<^verbatim>\<open>progress\<close>
    variable each callback closes over, the requests sent, the JSON files handed to
    the browser for download, the clock and the time zone.
  Not kept: the markup that \<^verbatim>\<open>renderStocks\<close> writes into the stock list, the console,
  and the two \<^verbatim>\<open>setTimeout\<close> callbacks that hide the progress section and scroll.
\<close>

record page =
  allStocks :: "instrument list"
  filteredStocks :: "instrument list"
  selectedStocks :: nat
  selectedStrategy :: string
  selectedPeriodMonths :: "int option"
  isCustomPeriod :: bool
  lastBacktestParams :: "nat params option"
  arrays :: "nat \<Rightarrow> string list"
  array_count :: nat
  lastBacktestResults :: "results option"
  progressInterval :: "nat option"
  targetPercent :: string
  stopLossPercent :: string
  startDate :: string
  endDate :: string
  startBacktestBtn_disabled :: bool
  selectedCount :: string
  progressFill_width :: real
  progressText :: string
  progressSection_display :: string
  resultsSection_display :: string
  resultsSummary :: "real option list"
  resultsTableBody :: "table_row list"
  alerts :: "string list"
  timers :: "nat \<rightharpoonup> real"
  timer_count :: nat
  fetches :: "fetch_call list"
  json_downloads :: "(string \<times> results) list"
  clock :: int
  tza :: int
  tz_changes :: "(int \<times> int) list"

text \<open>The selection: the elements of the array \<^verbatim>\<open>state.selectedStocks\<close>.\<close>

definition selection :: "page \<Rightarrow> string list" where
  "selection w = arrays w (selectedStocks w)"

subsection \<open>Validation gate\<close>

text \<open>\<^verbatim>\<open>validateDates\<close> of \<^verbatim>\<open>app.js\<close>.\<close>

definition validateDates :: "page \<Rightarrow> page" where
  "validateDates w =
     (if startDate w \<noteq> [] \<and> endDate w \<noteq> [] then
        (if date_ge (newDate (startDate w)) (newDate (endDate w))
         then w\<lparr>alerts := alerts w @ [''Start date must be before end date''], endDate := []\<rparr>
         else w)
      else w)"

text \<open>
  \<^verbatim>\<open>updateStartButton\<close> of \<^verbatim>\<open>app.js\<close>.  \<open>isValid\<close> is the value of the local
  constant of that name; \<^verbatim>\<open>selectedPeriodMonths > 0\<close> is false on \<^verbatim>\<open>NaN\<close>.
\<close>

definition isValid :: "page \<Rightarrow> bool" where
  "isValid w =
     (let hasStocks = (0 < length (arrays w (selectedStocks w)));
          hasTarget = gt0 (parseFloat (targetPercent w));
          hasStopLoss = gt0 (parseFloat (stopLossPercent w));
          hasValidPeriod =
            (if isCustomPeriod w then startDate w \<noteq> [] \<and> endDate w \<noteq> []
             else (case selectedPeriodMonths w of None \<Rightarrow> False | Some m \<Rightarrow> 0 < m))
      in hasStocks \<and> hasTarget \<and> hasStopLoss \<and> hasValidPeriod)"

definition updateStartButton :: "page \<Rightarrow> page" where
  "updateStartButton w = w\<lparr>startBacktestBtn_disabled := \<not> isValid w\<rparr>"

subsection \<open>Selection\<close>

text \<open>\<^verbatim>\<open>indexOf\<close>: the first position of an element, \<open>- 1\<close> when there is none.\<close>

fun indexOf :: "'a list \<Rightarrow> 'a \<Rightarrow> int" where
  "indexOf [] a = - 1"
| "indexOf (x # xs) a = (if x = a then 0 else (let i = indexOf xs a in if i = - 1 then - 1 else i + 1))"

text \<open>\<^verbatim>\<open>splice(index, 1)\<close> for an index within the array.\<close>

definition splice1 :: "'a list \<Rightarrow> int \<Rightarrow> 'a list" where
  "splice1 xs i = take (nat i) xs @ drop (nat i + 1) xs"

text \<open>\<^verbatim>\<open>UIHandler.updateSelectedCount\<close>.\<close>

definition updateSelectedCount :: "nat \<Rightarrow> page \<Rightarrow> page" where
  "updateSelectedCount count w =
     w\<lparr>selectedCount := show_nat count @ '' stock'' @ (if count \<noteq> 1 then ''s'' else []) @ '' selected''\<rparr>"

text \<open>\<^verbatim>\<open>toggleStock\<close> of \<^verbatim>\<open>app.js\<close>: \<^verbatim>\<open>push\<close> and \<^verbatim>\<open>splice\<close> change the
  array in place.\<close>

definition toggleStock :: "string \<Rightarrow> page \<Rightarrow> page" where
  "toggleStock smb w =
     (let xs = arrays w (selectedStocks w);
          index = indexOf xs smb;
          xs' = (if index = - 1 then xs @ [smb] else splice1 xs index);
          w1 = w\<lparr>arrays := (arrays w)(selectedStocks w := xs')\<rparr>
      in updateStartButton (updateSelectedCount (length xs') w1))"

text \<open>The loop of \<^verbatim>\<open>selectAllStocks\<close> over the visible instruments.\<close>

fun push_missing :: "instrument list \<Rightarrow> string list \<Rightarrow> string list" where
  "push_missing [] xs = xs"
| "push_missing (s # ss) xs =
     push_missing ss (if symbol s \<notin> set xs then xs @ [symbol s] else xs)"

definition selectAllStocks :: "page \<Rightarrow> page" where
  "selectAllStocks w =
     (let xs' = push_missing (filteredStocks w) (arrays w (selectedStocks w));
          w1 = w\<lparr>arrays := (arrays w)(selectedStocks w := xs')\<rparr>
      in updateStartButton (updateSelectedCount (length xs') w1))"

text \<open>\<^verbatim>\<open>clearAllStocks\<close> assigns a new, empty array.\<close>

definition clearAllStocks :: "page \<Rightarrow> page" where
  "clearAllStocks w =
     (let a = array_count w;
          w1 = w\<lparr>selectedStocks := a, arrays := (arrays w)(a := []), array_count := Suc a\<rparr>
      in updateStartButton (updateSelectedCount 0 w1))"

subsection \<open>The catalogue\<close>

text \<open>\<^verbatim>\<open>loadStocks\<close> once \<^verbatim>\<open>/api/stocks\<close> has answered with a list of
  instruments: both the catalogue and the visible list become that list.\<close>

definition loadStocks_resume :: "instrument list \<Rightarrow> page \<Rightarrow> page" where
  "loadStocks_resume sts w = w\<lparr>allStocks := sts, filteredStocks := sts\<rparr>"

subsection \<open>Period resolution and the request\<close>

text \<open>The table \<^verbatim>\<open>daysMap\<close> of \<^verbatim>\<open>getDateRange\<close>; \<open>None\<close> for a key it does not
  have.\<close>

definition daysMap :: "int \<Rightarrow> int option" where
  "daysMap m =
     (if m = 1 then Some 30 else if m = 3 then Some 90 else if m = 6 then Some 180
      else if m = 12 then Some 365 else None)"

text \<open>\<^verbatim>\<open>daysMap[this.state.selectedPeriodMonths] || 30\<close>.\<close>

definition daysBack :: "int option \<Rightarrow> int" where
  "daysBack months =
     (case months of None \<Rightarrow> 30
      | Some m \<Rightarrow> (case daysMap m of None \<Rightarrow> 30 | Some d \<Rightarrow> if d = 0 then 30 else d))"

text \<open>\<^verbatim>\<open>getDateRange\<close> of \<^verbatim>\<open>app.js\<close>; the result is the pair
  (\<^verbatim>\<open>start_date\<close>, \<^verbatim>\<open>end_date\<close>).\<close>

definition getDateRange :: "page \<Rightarrow> string \<times> string" where
  "getDateRange w =
     (if isCustomPeriod w then (startDate w, endDate w)
      else
        (let today = clock w;
             back = daysBack (selectedPeriodMonths w);
             start = setDate (tza w) (tz_changes w) today
                       (getDate (tza w) (tz_changes w) today - back)
         in (split_T_0 (toISOString start), split_T_0 (toISOString today))))"

text \<open>\<^verbatim>\<open>JSON.stringify\<close> of a request object: the array is written out with the
  elements it has at that moment.\<close>

definition stringify :: "(nat \<Rightarrow> string list) \<Rightarrow> nat params \<Rightarrow> string list params" where
  "stringify mem p =
     \<lparr>stocks = mem (stocks p), strategy = strategy p, target_percent = target_percent p,
      stop_loss_percent = stop_loss_percent p, start_date = start_date p,
      end_date = end_date p, timeframe = timeframe p\<rparr>"

subsection \<open>Progress\<close>

definition messages :: "string list" where
  "messages =
     [''Connecting to Angel One API...'', ''Fetching historical data...'',
      ''Detecting hammer patterns...'', ''Simulating trades...'', ''Calculating results...'',
      ''Preparing report...'']"

text \<open>
  \<^verbatim>\<open>UIHandler.animateProgress\<close> registers an interval timer whose callback closes
  over \<^verbatim>\<open>progress = 0\<close>.  Handles of timers are positive numbers.
\<close>

definition animateProgress :: "page \<Rightarrow> page" where
  "animateProgress w =
     (let interval = Suc (timer_count w)
      in w\<lparr>timers := (timers w)(interval \<mapsto> 0), timer_count := interval,
           progressInterval := Some interval\<rparr>)"

definition showProgress :: "page \<Rightarrow> page" where
  "showProgress w =
     animateProgress (w\<lparr>progressSection_display := ''block'', resultsSection_display := ''none''\<rparr>)"

text \<open>
  One run of the callback of timer \<open>interval\<close>; \<open>r\<close> is what \<^verbatim>\<open>Math.random()\<close>
  returns.  A timer that has been cleared does not fire.
\<close>

definition tick :: "nat \<Rightarrow> real \<Rightarrow> page \<Rightarrow> page" where
  "tick interval r w =
     (case timers w interval of
        None \<Rightarrow> w
      | Some progress0 \<Rightarrow>
          (let progress = min (progress0 + (r * 15 + 5)) 95;
               w1 = w\<lparr>progressFill_width := progress\<rparr>;
               messageIndex = \<lfloor>progress / 100 * 6\<rfloor>;
               w2 = (if 0 \<le> messageIndex \<and> messageIndex < 6
                     then w1\<lparr>progressText := messages ! nat messageIndex\<rparr> else w1)
           in if 95 \<le> progress then w2\<lparr>timers := (timers w2)(interval := None)\<rparr>
              else w2\<lparr>timers := (timers w2)(interval \<mapsto> progress)\<rparr>))"

text \<open>\<^verbatim>\<open>UIHandler.hideProgress\<close>; a handle is truthy when it is not 0.\<close>

definition hideProgress :: "page \<Rightarrow> page" where
  "hideProgress w =
     (let w1 = (case progressInterval w of
                  None \<Rightarrow> w
                | Some i \<Rightarrow> if i \<noteq> 0 then w\<lparr>timers := (timers w)(i := None)\<rparr> else w)
      in w1\<lparr>progressFill_width := 100, progressText := ''Complete!''\<rparr>)"

subsection \<open>Display of the results by \<^verbatim>\<open>UIHandler\<close>\<close>

text \<open>\<^verbatim>\<open>classMap[outcome] || 'eod'\<close> and \<^verbatim>\<open>formatMap[outcome] || outcome\<close>.\<close>

definition getOutcomeClass :: "string option \<Rightarrow> string" where
  "getOutcomeClass oc =
     (if oc = Some ''target_hit'' then ''target'' else if oc = Some ''stop_loss'' then ''stoploss''
      else ''eod'')"

definition formatOutcome :: "string option \<Rightarrow> string option" where
  "formatOutcome oc =
     (if oc = Some ''target_hit'' then Some ''Target''
      else if oc = Some ''stop_loss'' then Some ''Stop Loss''
      else if oc = Some ''eod_exit'' then Some ''EOD Exit'' else oc)"

text \<open>\<^verbatim>\<open>renderSummary\<close> interpolates seven fields of the payload as they are, in this
  order.\<close>

definition renderSummary :: "results \<Rightarrow> page \<Rightarrow> page" where
  "renderSummary rs w =
     w\<lparr>resultsSummary :=
         [target_hit_rate rs, target_hit_count rs, stop_loss_rate rs, stop_loss_count rs,
          eod_exit_count rs, total_patterns rs, avg_return rs]\<rparr>"

text \<open>\<^verbatim>\<open>renderTradesTable\<close>: one row for each trade; no row when the list is missing
  or empty (the table then holds a notice).\<close>

definition renderTradesTable :: "trade list option \<Rightarrow> page \<Rightarrow> page" where
  "renderTradesTable ts w =
     (case ts of
        None \<Rightarrow> w\<lparr>resultsTableBody := []\<rparr>
      | Some l \<Rightarrow>
          w\<lparr>resultsTableBody :=
               map (\<lambda>t. \<lparr>row_trade = t, row_outcome_class = getOutcomeClass (outcome t),
                          row_outcome_label = formatOutcome (outcome t)\<rparr>) l\<rparr>)"

definition displayResults :: "results \<Rightarrow> page \<Rightarrow> page" where
  "displayResults rs w =
     (let w1 = hideProgress w;
          w2 = w1\<lparr>resultsSection_display := ''block''\<rparr>;
          w3 = renderSummary rs w2
      in renderTradesTable (trades rs) w3)"

definition showError :: "string \<Rightarrow> page \<Rightarrow> page" where
  "showError message w =
     (let w1 = hideProgress w
      in w1\<lparr>alerts := alerts w1 @
            [''Error: '' @ message @ [CHR 0x0A, CHR 0x0A] @ ''Please check your inputs and try again.'']\<rparr>)"

subsection \<open>Running a backtest\<close>

text \<open>
  \<^verbatim>\<open>startBacktest\<close> up to the point where \<^verbatim>\<open>ApiService.runBacktest\<close> waits for
  \<^verbatim>\<open>fetch\<close>: the request object is built and stored, the progress display starts,
  and the request goes out.
\<close>

definition startBacktest_begin :: "page \<Rightarrow> page" where
  "startBacktest_begin w =
     (let dateRange = getDateRange w;
          ps = \<lparr>stocks = selectedStocks w, strategy = selectedStrategy w,
                target_percent = parseFloat (targetPercent w),
                stop_loss_percent = parseFloat (stopLossPercent w),
                start_date = fst dateRange, end_date = snd dateRange, timeframe = ''15min''\<rparr>;
          w1 = w\<lparr>lastBacktestParams := Some ps\<rparr>;
          w2 = showProgress w1
      in w2\<lparr>fetches := fetches w2 @ [\<lparr>endpoint = ''/backtest'', body = stringify (arrays w2) ps\<rparr>]\<rparr>)"

text \<open>
  The rest of \<^verbatim>\<open>runBacktest\<close>: it stores and returns the payload of a 2xx answer
  (\<open>Inr\<close>) and throws an error with a message otherwise (\<open>Inl\<close>).
\<close>

fun runBacktest_resume :: "response \<Rightarrow> page \<Rightarrow> string + results \<times> page" where
  "runBacktest_resume (Ok rs) w = Inr (rs, w\<lparr>lastBacktestResults := Some rs\<rparr>)"
| "runBacktest_resume (Not_ok detail) w =
     Inl (case detail of None \<Rightarrow> ''Backtest failed''
          | Some d \<Rightarrow> if d = [] then ''Backtest failed'' else d)"
| "runBacktest_resume (Transport_error message) w = Inl message"

text \<open>The rest of \<^verbatim>\<open>startBacktest\<close>, with its \<^verbatim>\<open>catch\<close> branch.\<close>

definition startBacktest_resume :: "response \<Rightarrow> page \<Rightarrow> page" where
  "startBacktest_resume resp w =
     (case runBacktest_resume resp w of
        Inr (rs, w1) \<Rightarrow> displayResults rs w1
      | Inl message \<Rightarrow>
          showError (if message = [] then ''Backtest failed. Please try again.'' else message) w)"

subsection \<open>Export\<close>

text \<open>\<^verbatim>\<open>downloadExcel\<close> up to the point where it waits for the report endpoint.\<close>

definition downloadExcel_begin :: "page \<Rightarrow> page" where
  "downloadExcel_begin w =
     (case lastBacktestParams w of
        None \<Rightarrow> w\<lparr>alerts := alerts w @ [''Please run a backtest first'']\<rparr>
      | Some ps \<Rightarrow>
          w\<lparr>fetches := fetches w @
               [\<lparr>endpoint = ''/backtest/download'', body = stringify (arrays w) ps\<rparr>]\<rparr>)"

text \<open>
  \<^verbatim>\<open>downloadJSON\<close> of \<^verbatim>\<open>app.js\<close>.  The file handed to the browser is recorded
  as its name and the object that \<^verbatim>\<open>JSON.stringify\<close> serialises.  Reading
  \<^verbatim>\<open>params.strategy\<close> of a missing request object throws a \<^verbatim>\<open>TypeError\<close>,
  which the \<^verbatim>\<open>catch\<close> branch reports; the engine's text of that error is left out.
\<close>

definition downloadJSON :: "page \<Rightarrow> page" where
  "downloadJSON w =
     (case lastBacktestResults w of
        None \<Rightarrow> w\<lparr>alerts := alerts w @ [''Please run a backtest first'']\<rparr>
      | Some rs \<Rightarrow>
          (case lastBacktestParams w of
             None \<Rightarrow> w\<lparr>alerts := alerts w @ [''Failed to download JSON data: '']\<rparr>
           | Some ps \<Rightarrow>
               w\<lparr>json_downloads := json_downloads w @
                    [(''backtest_'' @ strategy ps @ ''_'' @ start_date ps @ ''_to_'' @ end_date ps @
                      ''.json'', rs)]\<rparr>))"

subsection \<open>Display of the results by \<^verbatim>\<open>main.js\<close>\<close>

text \<open>\<^verbatim>\<open>x || d\<close> on a field that is a number or missing (0 is falsy), and on a
  field that is text or missing (the empty text is falsy).\<close>

definition or_num :: "real option \<Rightarrow> real \<Rightarrow> real" where
  "or_num x d = (case x of None \<Rightarrow> d | Some v \<Rightarrow> if v = 0 then d else v)"

definition or_str :: "string option \<Rightarrow> string \<Rightarrow> string" where
  "or_str x d = (case x of None \<Rightarrow> d | Some v \<Rightarrow> if v = [] then d else v)"

text \<open>\<^verbatim>\<open>replace('_', ' ')\<close> replaces the first underscore only.\<close>

fun replace_first :: "char \<Rightarrow> char \<Rightarrow> string \<Rightarrow> string" where
  "replace_first a b [] = []"
| "replace_first a b (c # cs) = (if c = a then b # cs else c # replace_first a b cs)"

text \<open>
  A row of the table of \<^verbatim>\<open>createTradesTable\<close>: the values its template
  interpolates (numbers as values, before \<^verbatim>\<open>toFixed\<close> and conversion to text).
\<close>

record trade_row =
  cell_stock :: "string option"
  cell_pattern_time :: string
  cell_exit_time :: string
  cell_entry_price :: real
  cell_exit_price :: real
  cell_outcome :: string
  cell_outcome_color :: string
  cell_points_gained :: real
  cell_points_color :: string
  cell_percentage_gain :: real
  cell_minutes_held :: real
  cell_candles_held :: real

definition trade_to_row :: "trade \<Rightarrow> trade_row" where
  "trade_to_row t =
     (let outcomeColor = (if outcome t = Some ''profit'' then ''#51cf66''
                          else if outcome t = Some ''stop_loss'' then ''#ff6b6b'' else ''#ffd43b'');
          pointsColor = (if 0 \<le> or_num (points_gained t) 0 then ''#51cf66'' else ''#ff6b6b'');
          patternTime = or_str (pattern_time t) ''N/A'';
          exitTime = or_str (exit_time_formatted t) ''N/A'';
          minutesHeld = min (or_num (minutes_held t) 0) 45;
          candlesHeld = min (or_num (candles_held t) 1) 3
      in \<lparr>cell_stock = stock t, cell_pattern_time = patternTime, cell_exit_time = exitTime,
          cell_entry_price = or_num (entry_price t) 0, cell_exit_price = or_num (exit_price t) 0,
          cell_outcome = replace_first (CHR ''_'') (CHR '' '') (or_str (outcome t) ''unknown''),
          cell_outcome_color = outcomeColor,
          cell_points_gained = or_num (points_gained t) 0, cell_points_color = pointsColor,
          cell_percentage_gain = or_num (percentage_gain t) 0,
          cell_minutes_held = minutesHeld, cell_candles_held = candlesHeld\<rparr>)"

text \<open>
  \<^verbatim>\<open>createTradesTable\<close>: a notice when there is no trade; otherwise the rows of the
  first 25 trades, the number of trades of the heading, and whether the line
  ``Showing first 25 trades of ...'' is added.
\<close>

datatype trades_section = No_trades | Trades_table "trade_row list" nat bool

definition createTradesTable :: "trade list \<Rightarrow> trades_section" where
  "createTradesTable ts =
     (if ts = [] then No_trades
      else Trades_table (map trade_to_row (take 25 ts)) (length ts) (25 < length ts))"

text \<open>
  The content of the results section that \<^verbatim>\<open>displayResults\<close> of \<^verbatim>\<open>main.js\<close>
  builds; \<open>selected\<close> is \<^verbatim>\<open>this.selectedStocks.length\<close>.
\<close>

record main_view =
  card_profit_rate :: real
  card_target_percent :: real
  card_safe_rate :: real
  card_stop_loss_rate :: real
  card_stop_loss_percent :: real
  card_total_patterns :: real
  detail_strategy :: string
  detail_period :: string
  detail_timeframe :: string
  detail_stocks_analyzed :: real
  tradesTable :: trades_section

definition main_displayResults :: "results \<Rightarrow> nat \<Rightarrow> main_view" where
  "main_displayResults rs selected =
     \<lparr>card_profit_rate = or_num (profit_rate rs) 0,
      card_target_percent = or_num (res_target_percent rs) 3,
      card_safe_rate = or_num (safe_rate rs) 0,
      card_stop_loss_rate = or_num (stop_loss_rate rs) 0,
      card_stop_loss_percent = or_num (res_stop_loss_percent rs) 2,
      card_total_patterns = or_num (total_patterns rs) 0,
      detail_strategy = or_str (res_strategy rs) ''Hammer Pattern'',
      detail_period = or_str (res_period rs) ''Custom Range'',
      detail_timeframe = or_str (res_timeframe rs) ''15 Minutes'',
      detail_stocks_analyzed = or_num (stocks_analyzed rs) (real selected),
      tradesTable = createTradesTable (case detailed_trades rs of None \<Rightarrow> [] | Some l \<Rightarrow> l)\<rparr>"

subsection \<open>The controller of \<^verbatim>\<open>main.js\<close>\<close>

text \<open>
  \<^verbatim>\<open>main.js\<close> holds a second \<^verbatim>\<open>SageForgeApp\<close>, which talks to the server and
  to the page itself.  Its state: the fields of the object (\<open>m_selectedStocks\<close> to
  \<open>m_isCustomPeriod\<close>), the inputs and the start button it reads and writes, the
  progress sections it has created (each keeps its bar, its percentage and its line of
  text, in the page or removed from it), which of them is in the page, the results and
  the error section, and the host.  A live timer holds the \<^verbatim>\<open>progress\<close> variable
  and the progress section whose elements its callback closes over.
\<close>

record progress_section =
  ps_display :: string
  ps_fill_width :: real
  ps_percent :: int
  ps_details :: string

record main_page =
  m_selectedStocks :: "string list"
  m_selectedStrategy :: string
  m_selectedPeriod :: "int option"
  m_isCustomPeriod :: bool
  m_targetPercent :: string
  m_stopLossPercent :: string
  m_startDate :: string
  m_endDate :: string
  startHammerAnalysis_disabled :: bool
  startHammerAnalysis_opacity :: string
  startHammerAnalysis_cursor :: string
  selected_count :: string
  sections :: "nat \<rightharpoonup> progress_section"
  section_count :: nat
  section_in_page :: "nat option"
  results_section :: "main_view option"
  error_section :: "string option"
  m_alerts :: "string list"
  m_timers :: "nat \<rightharpoonup> real \<times> nat"
  m_timer_count :: nat
  m_fetches :: "fetch_call list"
  m_clock :: int
  m_tza :: int
  m_tz_changes :: "(int \<times> int) list"

text \<open>
  \<^verbatim>\<open>updateStartButton\<close> of \<^verbatim>\<open>main.js\<close>.  \<^verbatim>\<open>hasTarget\<close> and
  \<^verbatim>\<open>hasStopLoss\<close> are the texts of the two inputs, and a text counts as true when
  it is not empty.
\<close>

definition main_isValid :: "main_page \<Rightarrow> bool" where
  "main_isValid w =
     (let hasStocks = (0 < length (m_selectedStocks w));
          hasTarget = (m_targetPercent w \<noteq> []);
          hasStopLoss = (m_stopLossPercent w \<noteq> []);
          hasValidPeriod =
            (if m_isCustomPeriod w then m_startDate w \<noteq> [] \<and> m_endDate w \<noteq> []
             else (case m_selectedPeriod w of None \<Rightarrow> False | Some n \<Rightarrow> 0 < n))
      in hasStocks \<and> hasTarget \<and> hasStopLoss \<and> hasValidPeriod)"

definition main_updateStartButton :: "main_page \<Rightarrow> main_page" where
  "main_updateStartButton w =
     w\<lparr>startHammerAnalysis_disabled := \<not> main_isValid w,
       startHammerAnalysis_opacity := (if main_isValid w then ''1'' else ''0.6''),
       startHammerAnalysis_cursor := (if main_isValid w then ''pointer'' else ''not-allowed'')\<rparr>"

definition main_updateStockCounter :: "main_page \<Rightarrow> main_page" where
  "main_updateStockCounter w =
     w\<lparr>selected_count := ''Selected: '' @ show_nat (length (m_selectedStocks w)) @ '' stocks''\<rparr>"

text \<open>\<^verbatim>\<open>toggleStock\<close> of \<^verbatim>\<open>main.js\<close>: a selected symbol is filtered out, another
  one is pushed.\<close>

definition main_toggleStock :: "string \<Rightarrow> main_page \<Rightarrow> main_page" where
  "main_toggleStock smb w =
     (let w1 = (if smb \<in> set (m_selectedStocks w)
                then w\<lparr>m_selectedStocks := filter (\<lambda>s. s \<noteq> smb) (m_selectedStocks w)\<rparr>
                else w\<lparr>m_selectedStocks := m_selectedStocks w @ [smb]\<rparr>)
      in main_updateStartButton (main_updateStockCounter w1))"

definition main_validateDates :: "main_page \<Rightarrow> main_page" where
  "main_validateDates w =
     (let w1 = (if m_startDate w \<noteq> [] \<and> m_endDate w \<noteq> [] \<and>
                   date_ge (newDate (m_startDate w)) (newDate (m_endDate w))
                then w\<lparr>m_alerts := m_alerts w @ [''Start date must be before end date''],
                       m_endDate := []\<rparr>
                else w)
      in main_updateStartButton w1)"

text \<open>The table \<^verbatim>\<open>daysBack\<close> of \<^verbatim>\<open>getStartDate\<close>, with its keys 1 to 4, and
  \<^verbatim>\<open>daysBack[this.selectedPeriod] || 30\<close>.\<close>

definition main_daysBack :: "int option \<Rightarrow> int" where
  "main_daysBack period =
     (case period of None \<Rightarrow> 30
      | Some n \<Rightarrow> if n = 1 then 30 else if n = 2 then 90 else if n = 3 then 180
                  else if n = 4 then 365 else 30)"

definition getStartDate :: "main_page \<Rightarrow> string" where
  "getStartDate w =
     (if m_isCustomPeriod w then m_startDate w
      else
        (let today = m_clock w;
             start = setDate (m_tza w) (m_tz_changes w) today
                       (getDate (m_tza w) (m_tz_changes w) today - main_daysBack (m_selectedPeriod w))
         in split_T_0 (toISOString start)))"

definition getEndDate :: "main_page \<Rightarrow> string" where
  "getEndDate w =
     (if m_isCustomPeriod w then m_endDate w else split_T_0 (toISOString (m_clock w)))"

definition main_messages :: "string list" where
  "main_messages =
     [''Loading historical data...'', ''Detecting hammer patterns...'',
      ''Testing target and stop-loss levels...'', ''Calculating trade outcomes...'',
      ''Preparing results...'']"

text \<open>
  \<^verbatim>\<open>animateProgress\<close> of \<^verbatim>\<open>main.js\<close>: nothing without a progress bar in the
  page; otherwise an interval timer is registered.  Its handle is kept in a local
  constant of this call only.
\<close>

definition main_animateProgress :: "main_page \<Rightarrow> main_page" where
  "main_animateProgress w =
     (case section_in_page w of
        None \<Rightarrow> w
      | Some s \<Rightarrow>
          (let interval = Suc (m_timer_count w)
           in w\<lparr>m_timers := (m_timers w)(interval \<mapsto> (0, s)), m_timer_count := interval\<rparr>))"

text \<open>\<^verbatim>\<open>showLoadingState\<close>: the results section and the progress section in the page
  are removed, a new progress section is put in, and the animation starts.\<close>

definition showLoadingState :: "main_page \<Rightarrow> main_page" where
  "showLoadingState w =
     (let s = Suc (section_count w);
          fresh = \<lparr>ps_display = [], ps_fill_width = 0, ps_percent = 0,
                   ps_details = ''Loading historical data...''\<rparr>
      in main_animateProgress
           (w\<lparr>results_section := None, sections := (sections w)(s \<mapsto> fresh),
              section_count := s, section_in_page := Some s\<rparr>))"

text \<open>One run of the callback of timer \<open>interval\<close> of \<^verbatim>\<open>main.js\<close>;
  \<^verbatim>\<open>Math.round\<close> rounds a half upwards.\<close>

definition main_tick :: "nat \<Rightarrow> real \<Rightarrow> main_page \<Rightarrow> main_page" where
  "main_tick interval r w =
     (case m_timers w interval of
        None \<Rightarrow> w
      | Some (progress0, s) \<Rightarrow>
          (case sections w s of
             None \<Rightarrow> w
           | Some sec \<Rightarrow>
               (let progress = min (progress0 + (r * 15 + 5)) 95;
                    sec1 = sec\<lparr>ps_fill_width := progress, ps_percent := \<lfloor>progress + 1 / 2\<rfloor>\<rparr>;
                    messageIndex = \<lfloor>progress / 100 * 5\<rfloor>;
                    sec2 = (if 0 \<le> messageIndex \<and> messageIndex < 5
                            then sec1\<lparr>ps_details := main_messages ! nat messageIndex\<rparr> else sec1);
                    w1 = w\<lparr>sections := (sections w)(s \<mapsto> sec2)\<rparr>
                in if 95 \<le> progress then w1\<lparr>m_timers := (m_timers w1)(interval := None)\<rparr>
                   else w1\<lparr>m_timers := (m_timers w1)(interval \<mapsto> (progress, s))\<rparr>)))"

text \<open>\<^verbatim>\<open>hideProgress\<close> of \<^verbatim>\<open>main.js\<close> hides the progress section in the page.\<close>

definition main_hideProgress :: "main_page \<Rightarrow> main_page" where
  "main_hideProgress w =
     (case section_in_page w of
        None \<Rightarrow> w
      | Some s \<Rightarrow>
          (case sections w s of
             None \<Rightarrow> w
           | Some sec \<Rightarrow> w\<lparr>sections := (sections w)(s \<mapsto> sec\<lparr>ps_display := ''none''\<rparr>)\<rparr>))"

definition main_showError :: "string \<Rightarrow> main_page \<Rightarrow> main_page" where
  "main_showError message w = (main_hideProgress w)\<lparr>error_section := Some message\<rparr>"

text \<open>What \<^verbatim>\<open>displayResults\<close> of \<^verbatim>\<open>main.js\<close> does to the page.\<close>

definition main_displayResults_page :: "results \<Rightarrow> main_page \<Rightarrow> main_page" where
  "main_displayResults_page rs w =
     (main_hideProgress w)
       \<lparr>results_section := Some (main_displayResults rs (length (m_selectedStocks w)))\<rparr>"

text \<open>\<^verbatim>\<open>startHammerAnalysis\<close> up to the point where it waits for \<^verbatim>\<open>fetch\<close>.\<close>

definition startHammerAnalysis_begin :: "main_page \<Rightarrow> main_page" where
  "startHammerAnalysis_begin w =
     (let request = \<lparr>stocks = m_selectedStocks w, strategy = m_selectedStrategy w,
                     target_percent = parseFloat (m_targetPercent w),
                     stop_loss_percent = parseFloat (m_stopLossPercent w),
                     start_date = getStartDate w, end_date = getEndDate w,
                     timeframe = ''15min''\<rparr>;
          w1 = showLoadingState w
      in w1\<lparr>m_fetches := m_fetches w1 @ [\<lparr>endpoint = ''/backtest/hammer'', body = request\<rparr>]\<rparr>)"

text \<open>How that wait ends: a 2xx answer with its payload, or an error with its message
  (for another status, \<^verbatim>\<open>HTTP\<close> with the status and its text).\<close>

datatype main_response = Main_ok results | Main_failed string

fun startHammerAnalysis_resume :: "main_response \<Rightarrow> main_page \<Rightarrow> main_page" where
  "startHammerAnalysis_resume (Main_ok rs) w = main_displayResults_page rs w"
| "startHammerAnalysis_resume (Main_failed message) w =
     main_showError (''Analysis failed: '' @ message) w"

subsection \<open>The submit rule in the words of the specification\<close>

text \<open>
  The period is valid when a preset with a positive month count is chosen, or custom
  mode is active with both dates present and start before end.
\<close>

definition spec_period_valid :: "page \<Rightarrow> bool" where
  "spec_period_valid w =
     (if isCustomPeriod w
      then startDate w \<noteq> [] \<and> endDate w \<noteq> [] \<and> date_lt (newDate (startDate w)) (newDate (endDate w))
      else (case selectedPeriodMonths w of None \<Rightarrow> False | Some m \<Rightarrow> 0 < m))"

definition spec_canSubmit :: "page \<Rightarrow> bool" where
  "spec_canSubmit w =
     (selection w \<noteq> [] \<and> gt0 (parseFloat (targetPercent w)) \<and>
      gt0 (parseFloat (stopLossPercent w)) \<and> spec_period_valid w)"

text \<open>What a date input can hold: nothing, or a date in the form \<^verbatim>\<open>YYYY-MM-DD\<close>.\<close>

definition date_input_value :: "string \<Rightarrow> bool" where
  "date_input_value s = (s = [] \<or> newDate s \<noteq> None)"

text \<open>What the change handler of the date inputs leaves behind: two values of date
  inputs that are not both present with start at or after end.\<close>

definition dates_ok :: "page \<Rightarrow> bool" where
  "dates_ok w =
     (date_input_value (startDate w) \<and> date_input_value (endDate w) \<and>
      \<not> (startDate w \<noteq> [] \<and> endDate w \<noteq> [] \<and>
         date_ge (newDate (startDate w)) (newDate (endDate w))))"

subsection \<open>Example pages\<close>

text \<open>
  The page once the constructor of \<^verbatim>\<open>SageForgeApp\<close> has run: nothing selected in a
  fresh array, strategy \<^verbatim>\<open>hammer\<close>, the one-month preset.  The text of the two
  percent inputs, the clock and the time-zone offset are parameters; the other element
  properties start empty or hidden.
\<close>

definition loaded :: "string \<Rightarrow> string \<Rightarrow> int \<Rightarrow> int \<Rightarrow> page" where
  "loaded target stop now offset =
     \<lparr>allStocks = [], filteredStocks = [], selectedStocks = 0, selectedStrategy = ''hammer'',
      selectedPeriodMonths = Some 1, isCustomPeriod = False, lastBacktestParams = None,
      arrays = (\<lambda>a. []), array_count = 1, lastBacktestResults = None,
      progressInterval = None, targetPercent = target, stopLossPercent = stop,
      startDate = [], endDate = [], startBacktestBtn_disabled = False, selectedCount = [],
      progressFill_width = 0, progressText = [], progressSection_display = ''none'',
      resultsSection_display = ''none'', resultsSummary = [], resultsTableBody = [],
      alerts = [], timers = Map.empty, timer_count = 0, fetches = [], json_downloads = [],
      clock = now, tza = offset, tz_changes = []\<rparr>"

text \<open>
  A user in India (UTC+5:30) at 2024-06-15T10:30:00Z who has typed target 3.0 and
  stop-loss 2.0 and ticked TCS and INFY.
\<close>

definition demo_page :: page where
  "demo_page = toggleStock ''INFY'' (toggleStock ''TCS'' (loaded ''3.0'' ''2.0'' 1718447400000 19800000))"

text \<open>A catalogue of \<open>n\<close> instruments with the symbols S0, S1, ..., and the page of a
  user who has 21 of them on screen and nothing selected.\<close>

definition many_stocks :: "nat \<Rightarrow> instrument list" where
  "many_stocks n =
     map (\<lambda>i. \<lparr>symbol = ''S'' @ show_nat i, name = ''Stock '' @ show_nat i, sector = ''it''\<rparr>) [0..<n]"

definition crowded_page :: page where
  "crowded_page = loadStocks_resume (many_stocks 21) (loaded ''3.0'' ''2.0'' 1718447400000 19800000)"

text \<open>The demo user after choosing a custom period; the date fields hold the given
  texts, set without a change event (as a browser restoring a form does).\<close>

definition custom_page :: "string \<Rightarrow> string \<Rightarrow> page" where
  "custom_page s e = demo_page\<lparr>isCustomPeriod := True, startDate := s, endDate := e\<rparr>"

text \<open>A trade and a payload in which every optional field is missing; the payload
  lists that one trade, under both names of the trade list.\<close>

definition bare_trade :: trade where
  "bare_trade =
     \<lparr>stock = Some ''TCS'', pattern_time = None, exit_time_formatted = None, entry_price = None,
      exit_price = None, outcome = None, points_gained = None, percentage_gain = None,
      minutes_held = None, candles_held = None\<rparr>"

definition bare_results :: results where
  "bare_results =
     \<lparr>target_hit_rate = None, target_hit_count = None, stop_loss_rate = None,
      stop_loss_count = None, eod_exit_count = None, total_patterns = None, avg_return = None,
      trades = Some [bare_trade], profit_rate = None, safe_rate = None,
      res_target_percent = None, res_stop_loss_percent = None, res_strategy = None,
      res_period = None, res_timeframe = None, stocks_analyzed = None,
      detailed_trades = Some [bare_trade]\<rparr>"

text \<open>A trade held for 120 minutes over 8 candles, and a payload that lists it.\<close>

definition long_trade :: trade where
  "long_trade =
     \<lparr>stock = Some ''INFY'', pattern_time = Some ''2024-06-03 09:30'',
      exit_time_formatted = Some ''2024-06-03 11:30'', entry_price = Some 1500,
      exit_price = Some 1545, outcome = Some ''target_hit'', points_gained = Some 45,
      percentage_gain = Some 3, minutes_held = Some 120, candles_held = Some 8\<rparr>"

definition long_results :: results where
  "long_results = bare_results\<lparr>trades := Some [long_trade], detailed_trades := Some [long_trade]\<rparr>"

text \<open>The same user at 03:00 on 15 June, local time (2024-06-14T21:30:00Z).\<close>

definition early_page :: page where
  "early_page = demo_page\<lparr>clock := 1718400600000\<rparr>"

text \<open>
  A user in New York on 20 March 2024 at 19:30, local time (2024-03-20T23:30:00Z).
  The zone starts at UTC-5, goes to UTC-4 on 2024-03-10T07:00:00Z and back on
  2024-11-03T06:00:00Z.
\<close>

definition new_york_page :: page where
  "new_york_page =
     demo_page\<lparr>clock := 1710977400000, tza := - 18000000,
               tz_changes := [(1710054000000, - 14400000), (1730613600000, - 18000000)]\<rparr>"

text \<open>
  The page of \<^verbatim>\<open>main.js\<close> once its constructor has run, and the demo user on it.
  In \<open>zero_target_page\<close> the user has then typed 0 as the target: the input event
  runs \<^verbatim>\<open>updateStartButton\<close>.
\<close>

definition main_loaded :: "string \<Rightarrow> string \<Rightarrow> int \<Rightarrow> int \<Rightarrow> main_page" where
  "main_loaded target stop now offset =
     \<lparr>m_selectedStocks = [], m_selectedStrategy = ''hammer'', m_selectedPeriod = Some 1,
      m_isCustomPeriod = False, m_targetPercent = target, m_stopLossPercent = stop,
      m_startDate = [], m_endDate = [], startHammerAnalysis_disabled = False,
      startHammerAnalysis_opacity = ''1'', startHammerAnalysis_cursor = ''pointer'',
      selected_count = [], sections = Map.empty, section_count = 0, section_in_page = None,
      results_section = None, error_section = None, m_alerts = [], m_timers = Map.empty,
      m_timer_count = 0, m_fetches = [], m_clock = now, m_tza = offset, m_tz_changes = []\<rparr>"

definition main_demo_page :: main_page where
  "main_demo_page =
     main_toggleStock ''INFY'' (main_toggleStock ''TCS'' (main_loaded ''3.0'' ''2.0'' 1718447400000 19800000))"

definition zero_target_page :: main_page where
  "zero_target_page = main_updateStartButton (main_demo_page\<lparr>m_targetPercent := ''0''\<rparr>)"

section \<open>Properties\<close>

subsection \<open>Evaluation of the example pages\<close>

lemma parseFloat_3: "parseFloat ''3.0'' = Num 3"
  by code_simp

lemma parseFloat_2: "parseFloat ''2.0'' = Num 2"
  by code_simp

lemma selection_loaded: "selection (loaded target stop now offset) = []"
  by (simp add: selection_def loaded_def)

subsection \<open>Selection\<close>

lemma indexOf_notin: "a \<notin> set xs \<Longrightarrow> indexOf xs a = - 1"
  by (induction xs) (auto simp: Let_def)

lemma indexOf_in: "a \<in> set xs \<Longrightarrow> 0 \<le> indexOf xs a"
  by (induction xs) (auto simp: Let_def)

lemma indexOf_eq_minus1: "indexOf xs a = - 1 \<longleftrightarrow> a \<notin> set xs"
  using indexOf_in [of a xs] indexOf_notin [of a xs] by auto

text \<open>Removing the element at the first position of \<open>a\<close> removes the first \<open>a\<close>.\<close>

lemma splice1_indexOf: "a \<in> set xs \<Longrightarrow> splice1 xs (indexOf xs a) = remove1 a xs"
proof (induction xs)
  case Nil
  then show ?case by simp
next
  case (Cons x xs)
  show ?case
  proof (cases "x = a")
    case True
    then show ?thesis by (simp add: splice1_def)
  next
    case False
    with Cons.prems have mem: "a \<in> set xs" by simp
    from indexOf_in [OF mem] have "nat (indexOf xs a + 1) = Suc (nat (indexOf xs a))" by simp
    with False mem Cons.IH show ?thesis
      by (simp add: splice1_def Let_def indexOf_eq_minus1)
  qed
qed

lemma selection_toggleStock:
  "selection (toggleStock a w) =
     (if a \<in> set (selection w) then remove1 a (selection w) else selection w @ [a])"
  by (simp add: toggleStock_def updateStartButton_def updateSelectedCount_def selection_def
      Let_def indexOf_eq_minus1 splice1_indexOf)



lemma selection_demo_page: "selection demo_page = [''TCS'', ''INFY'']"
  by (simp add: demo_page_def selection_toggleStock selection_loaded)



subsection \<open>Selecting everything on screen\<close>

lemma set_push_missing: "set (push_missing ss xs) = set xs \<union> symbol ` set ss"
  by (induction ss arbitrary: xs) auto

lemma distinct_push_missing: "distinct xs \<Longrightarrow> distinct (push_missing ss xs)"
  by (induction ss arbitrary: xs) auto

lemma selection_selectAllStocks:
  "selection (selectAllStocks w) = push_missing (filteredStocks w) (selection w)"
  by (simp add: selectAllStocks_def updateStartButton_def updateSelectedCount_def selection_def Let_def)

text \<open>Like \<^verbatim>\<open>toggleStock\<close>, the other two operations on the selection keep it free
  of repetitions.\<close>

lemma distinct_selectAllStocks:
  "distinct (selection w) \<Longrightarrow> distinct (selection (selectAllStocks w))"
  by (simp add: selection_selectAllStocks distinct_push_missing)

lemma selection_clearAllStocks: "selection (clearAllStocks w) = []"
  by (simp add: clearAllStocks_def updateStartButton_def updateSelectedCount_def selection_def
      Let_def)

lemma alerts_selectAllStocks: "alerts (selectAllStocks w) = alerts w"
  by (simp add: selectAllStocks_def updateStartButton_def updateSelectedCount_def Let_def)

lemma alerts_toggleStock: "alerts (toggleStock a w) = alerts w"
  by (simp add: toggleStock_def updateStartButton_def updateSelectedCount_def Let_def)

text \<open>
  C4.  Nothing bounds the selection.  With 21 instruments on screen and none
  selected, \<^verbatim>\<open>selectAllStocks\<close> selects all 21 and raises no alert; with 20 selected,
  \<^verbatim>\<open>toggleStock\<close> adds a twenty-first.  The maximum of 20 that \<^verbatim>\<open>config.js\<close>
  declares (\<^verbatim>\<open>MAX_STOCKS_SELECTION\<close>) is read by neither operation.
\<close>

theorem selectAllStocks_exceeds_maximum:
  "length (selection (selectAllStocks crowded_page)) = 21 \<and>
   alerts (selectAllStocks crowded_page) = [] \<and>
   length (selection (toggleStock ''S20''
     (selectAllStocks (loadStocks_resume (many_stocks 20) crowded_page)))) = 21"
  by code_simp

subsection \<open>The submit rule\<close>

lemma newDate_0601: "newDate ''2024-06-01'' = Some 1717200000000"
  by code_simp

lemma newDate_0610: "newDate ''2024-06-10'' = Some 1717977600000"
  by code_simp

lemma newDate_0615: "newDate ''2024-06-15'' = Some 1718409600000"
  by code_simp

lemma disabled_updateStartButton:
  "startBacktestBtn_disabled (updateStartButton w) = (\<not> isValid w)"
  by (simp add: updateStartButton_def)

lemma isValid_iff:
  "isValid w \<longleftrightarrow>
     selection w \<noteq> [] \<and> gt0 (parseFloat (targetPercent w)) \<and> gt0 (parseFloat (stopLossPercent w)) \<and>
     (if isCustomPeriod w then startDate w \<noteq> [] \<and> endDate w \<noteq> []
      else (case selectedPeriodMonths w of None \<Rightarrow> False | Some m \<Rightarrow> 0 < m))"
  by (simp add: isValid_def selection_def Let_def)

lemma isValid_preset: "\<not> isCustomPeriod w \<Longrightarrow> isValid w = spec_canSubmit w"
  by (simp add: isValid_iff spec_canSubmit_def spec_period_valid_def)

lemma date_ge_lt:
  "date_input_value s \<Longrightarrow> date_input_value e \<Longrightarrow> s \<noteq> [] \<Longrightarrow> e \<noteq> [] \<Longrightarrow>
   date_lt (newDate s) (newDate e) = (\<not> date_ge (newDate s) (newDate e))"
  by (auto simp: date_input_value_def)

lemma isValid_validateDates:
  assumes "date_input_value (startDate w)" "date_input_value (endDate w)"
  shows "isValid (validateDates w) = spec_canSubmit (validateDates w)"
proof (cases "startDate w \<noteq> [] \<and> endDate w \<noteq> []")
  case False
  then have "validateDates w = w" by (auto simp: validateDates_def)
  with False show ?thesis
    by (auto simp: isValid_iff spec_canSubmit_def spec_period_valid_def)
next
  case True
  show ?thesis
  proof (cases "date_ge (newDate (startDate w)) (newDate (endDate w))")
    case True
    then show ?thesis using \<open>startDate w \<noteq> [] \<and> endDate w \<noteq> []\<close>
      by (simp add: validateDates_def isValid_iff spec_canSubmit_def spec_period_valid_def selection_def)
  next
    case False
    with True have same: "validateDates w = w" by (simp add: validateDates_def)
    from date_ge_lt [OF assms] True False
    have "date_lt (newDate (startDate w)) (newDate (endDate w))" by simp
    with True same show ?thesis
      by (simp add: isValid_iff spec_canSubmit_def spec_period_valid_def)
  qed
qed

text \<open>
  \<^verbatim>\<open>updateStartButton\<close> of \<^verbatim>\<open>app.js\<close> enables the button exactly when the
  selection is not empty, both percentages parse to a number above 0, and the period
  passes its own test: a positive month count for a preset, two non-empty dates in
  custom mode.  The two dates are compared by \<^verbatim>\<open>validateDates\<close>, which the change
  handler of the date inputs runs first: for what a date input can hold, the button
  after that handler is enabled exactly when the four predicates of the specification
  hold.  With a preset the two rules agree in every state.
\<close>

lemma updateStartButton_rule:
  "(\<not> startBacktestBtn_disabled (updateStartButton w) \<longleftrightarrow>
      selection w \<noteq> [] \<and> gt0 (parseFloat (targetPercent w)) \<and>
      gt0 (parseFloat (stopLossPercent w)) \<and>
      (if isCustomPeriod w then startDate w \<noteq> [] \<and> endDate w \<noteq> []
       else (case selectedPeriodMonths w of None \<Rightarrow> False | Some m \<Rightarrow> 0 < m))) \<and>
   (\<not> isCustomPeriod w \<longrightarrow>
      (\<not> startBacktestBtn_disabled (updateStartButton w) \<longleftrightarrow> spec_canSubmit w)) \<and>
   (date_input_value (startDate w) \<and> date_input_value (endDate w) \<longrightarrow>
      (\<not> startBacktestBtn_disabled (updateStartButton (validateDates w)) \<longleftrightarrow>
       spec_canSubmit (validateDates w)))"
proof (intro conjI impI)
  show "(\<not> startBacktestBtn_disabled (updateStartButton w)) =
      (selection w \<noteq> [] \<and> gt0 (parseFloat (targetPercent w)) \<and>
       gt0 (parseFloat (stopLossPercent w)) \<and>
       (if isCustomPeriod w then startDate w \<noteq> [] \<and> endDate w \<noteq> []
        else (case selectedPeriodMonths w of None \<Rightarrow> False | Some m \<Rightarrow> 0 < m)))"
    unfolding disabled_updateStartButton by (simp only: isValid_iff not_not)
next
  assume "\<not> isCustomPeriod w"
  then show "(\<not> startBacktestBtn_disabled (updateStartButton w)) = spec_canSubmit w"
    by (simp add: disabled_updateStartButton isValid_preset)
next
  assume "date_input_value (startDate w) \<and> date_input_value (endDate w)"
  then show "(\<not> startBacktestBtn_disabled (updateStartButton (validateDates w))) =
      spec_canSubmit (validateDates w)"
    by (simp add: disabled_updateStartButton isValid_validateDates)
qed

lemma custom_page_simps:
  "isCustomPeriod (custom_page s e)" "startDate (custom_page s e) = s"
  "endDate (custom_page s e) = e" "selection (custom_page s e) = [''TCS'', ''INFY'']"
  "targetPercent (custom_page s e) = ''3.0''" "stopLossPercent (custom_page s e) = ''2.0''"
  using selection_demo_page
  by (simp_all add: custom_page_def selection_def demo_page_def toggleStock_def
      updateStartButton_def updateSelectedCount_def loaded_def Let_def)

lemma demo_page_simps:
  "\<not> isCustomPeriod demo_page" "selectedPeriodMonths demo_page = Some 1"
  "targetPercent demo_page = ''3.0''" "stopLossPercent demo_page = ''2.0''"
  "selectedStrategy demo_page = ''hammer''" "clock demo_page = 1718447400000"
  "tza demo_page = 19800000" "tz_changes demo_page = []" "alerts demo_page = []"
  "fetches demo_page = []"
  "lastBacktestParams demo_page = None" "lastBacktestResults demo_page = None"
  "timers demo_page = Map.empty" "timer_count demo_page = 0" "json_downloads demo_page = []"
  by (simp_all add: demo_page_def toggleStock_def updateStartButton_def
      updateSelectedCount_def loaded_def Let_def)

text \<open>
  The change handler of the date inputs is the only handler that writes a date, and
  \<^verbatim>\<open>validateDates\<close> leaves the dates in order; while they are, the button of
  \<^verbatim>\<open>app.js\<close> follows the rule of the specification.
\<close>

lemma dates_ok_validateDates:
  assumes "date_input_value (startDate w)" and "date_input_value (endDate w)"
  shows "dates_ok (validateDates w)"
proof (cases "startDate w \<noteq> [] \<and> endDate w \<noteq> [] \<and>
    date_ge (newDate (startDate w)) (newDate (endDate w))")
  case True
  with assms show ?thesis
    by (simp add: dates_ok_def validateDates_def date_input_value_def)
next
  case False
  then have "validateDates w = w" by (auto simp: validateDates_def)
  with False assms show ?thesis by (simp add: dates_ok_def)
qed

lemma dates_ok_canSubmit:
  assumes "dates_ok w"
  shows "(\<not> startBacktestBtn_disabled (updateStartButton w)) = spec_canSubmit w"
proof -
  from assms have "validateDates w = w" by (auto simp: dates_ok_def validateDates_def)
  with isValid_validateDates [of w] assms show ?thesis
    by (simp add: disabled_updateStartButton dates_ok_def)
qed

lemma dates_ok_selection_handlers:
  "dates_ok (toggleStock a w) = dates_ok w"
  "dates_ok (selectAllStocks w) = dates_ok w"
  "dates_ok (clearAllStocks w) = dates_ok w"
  "dates_ok (updateStartButton w) = dates_ok w"
  by (simp_all add: dates_ok_def toggleStock_def selectAllStocks_def clearAllStocks_def
      updateStartButton_def updateSelectedCount_def Let_def)

text \<open>
  C1.  The button of \<^verbatim>\<open>main.js\<close> does not follow the rule.  Its
  \<^verbatim>\<open>updateStartButton\<close> asks only whether the two percent inputs hold some text:
  once the demo user has typed 0 as the target, the button is enabled, and the request
  that a click sends carries the target 0.  In the same situation \<^verbatim>\<open>app.js\<close>
  disables the button.
\<close>

theorem main_updateStartButton_accepts_zero:
  "m_selectedStocks zero_target_page = [''TCS'', ''INFY''] \<and>
   m_targetPercent zero_target_page = ''0'' \<and>
   parseFloat (m_targetPercent zero_target_page) = Num 0 \<and>
   \<not> gt0 (parseFloat (m_targetPercent zero_target_page)) \<and>
   \<not> startHammerAnalysis_disabled zero_target_page \<and>
   target_percent (body (last (m_fetches (startHammerAnalysis_begin zero_target_page)))) = Num 0 \<and>
   startBacktestBtn_disabled (updateStartButton (demo_page\<lparr>targetPercent := ''0''\<rparr>))"
  by code_simp

subsection \<open>The calendar\<close>

text \<open>\<open>YearFromDay\<close> gives the year that holds the day: the year of the standard's
  \<^verbatim>\<open>YearFromTime\<close>.\<close>

lemma div_bounds:
  fixes k x :: int
  assumes "0 < k"
  shows "k * (x div k) \<le> x" and "x < k * (x div k) + k"
  using pos_mod_sign [OF assms, of x] pos_mod_bound [OF assms, of x] mult_div_mod_eq [of k x]
  by linarith+

lemma DayFromYear_bounds:
  shows "146097 * k - 607 \<le> 400 * DayFromYear (1970 + k)"
    and "400 * DayFromYear (1970 + k) \<le> 146097 * k + 593"
proof -
  define a where "a = (k + 1) div 4"
  define b where "b = (k + 69) div 100"
  define c where "c = (k + 369) div 400"
  have a: "4 * a \<le> k + 1" "k + 1 < 4 * a + 4"
    unfolding a_def by (rule div_bounds, simp)+
  have b: "100 * b \<le> k + 69" "k + 69 < 100 * b + 100"
    unfolding b_def by (rule div_bounds, simp)+
  have c: "400 * c \<le> k + 369" "k + 369 < 400 * c + 400"
    unfolding c_def by (rule div_bounds, simp)+
  have eq: "DayFromYear (1970 + k) = 365 * k + a - b + c"
    by (simp add: DayFromYear_def a_def b_def c_def add.commute)
  have eq400: "400 * DayFromYear (1970 + k) = 146000 * k + 400 * a - 400 * b + 400 * c"
    by (simp add: eq)
  show "146097 * k - 607 \<le> 400 * DayFromYear (1970 + k)"
    unfolding eq400 using a b c by linarith
  show "400 * DayFromYear (1970 + k) \<le> 146097 * k + 593"
    unfolding eq400 using a b c by linarith
qed

lemma YearFromDay_correct:
  "DayFromYear (YearFromDay d) \<le> d \<and> d < DayFromYear (YearFromDay d + 1)"
proof -
  define k where "k = (d * 400) div 146097"
  have est: "146097 * k \<le> d * 400" "d * 400 < 146097 * k + 146097"
    unfolding k_def by (rule div_bounds, simp)+
  define p where "p = DayFromYear (1970 + (k - 1))"
  define q where "q = DayFromYear (1970 + (k + 2))"
  have "400 * p \<le> 146097 * (k - 1) + 593"
    unfolding p_def by (rule DayFromYear_bounds)
  then have "400 * p \<le> 146097 * k - 145504" by simp
  with est(1) have lo: "p \<le> d" by linarith
  have "146097 * (k + 2) - 607 \<le> 400 * q"
    unfolding q_def by (rule DayFromYear_bounds)
  then have "146097 * k + 291587 \<le> 400 * q" by simp
  with est(2) have hi: "d < q" by linarith
  have eq: "YearFromDay d = (if d < DayFromYear (1970 + k) then 1970 + (k - 1)
         else if DayFromYear (1970 + (k + 1)) \<le> d then 1970 + (k + 1) else 1970 + k)"
    by (simp add: YearFromDay_def k_def Let_def add.assoc)
  have s: "1970 + (k - 1) + 1 = 1970 + k" "1970 + (k + 1) + 1 = 1970 + (k + 2)"
    "1970 + k + 1 = 1970 + (k + 1)" by simp_all
  from lo hi show ?thesis unfolding eq p_def q_def by (simp add: s)
qed

subsection \<open>Period resolution\<close>

lemma MonthFromTime_range: "0 \<le> MonthFromTime t \<and> MonthFromTime t \<le> 11"
  by (simp add: MonthFromTime_def Let_def)

lemma MakeDay_of_time:
  "MakeDay (YearFromTime t) (MonthFromTime t) (DateFromTime t - n) = Day t - n"
proof -
  from MonthFromTime_range [of t]
  have "MonthFromTime t div 12 = 0" "MonthFromTime t mod 12 = MonthFromTime t" by simp_all
  then show ?thesis
    by (simp add: MakeDay_def DateFromTime_def DayWithinYear_def InLeapYear_def)
qed

text \<open>In a zone whose offset never changes, going back \<open>n\<close> days in local time is
  going back \<open>n\<close> days.\<close>

lemma setDate_getDate: "setDate z [] t (getDate z [] t - n) = t - n * msPerDay"
  by (simp add: setDate_def getDate_def MakeDay_of_time MakeDate_def UTC_def LocalTime_def
      Day_def TimeWithinDay_def Let_def algebra_simps mult_div_mod_eq)

lemma Day_minus_days: "Day (t - n * msPerDay) = Day t - n"
proof -
  have "t - n * msPerDay = t + (- n) * msPerDay" by simp
  then show ?thesis unfolding Day_def by (simp add: msPerDay_def)
qed

lemma digit_nth: "k < 10 \<Longrightarrow> ''0123456789'' ! k \<in> set ''0123456789''"
  by (rule nth_mem) simp

lemma set_show_nat: "set (show_nat n) \<subseteq> set ''0123456789''"
proof (induction n rule: show_nat.induct)
  case (1 n)
  show ?case
  proof (cases "n < 10")
    case True
    with digit_nth [of n] show ?thesis by (subst show_nat.simps) simp
  next
    case False
    have "n mod 10 < 10" by simp
    from digit_nth [OF this] 1 False show ?thesis by (subst show_nat.simps) simp
  qed
qed

lemma set_pad: "set (pad k n) \<subseteq> set ''0123456789''"
  using set_show_nat [of n] by (auto simp: pad_def)

lemma no_T_pad: "c \<in> set (pad k n) \<Longrightarrow> c \<noteq> CHR ''T''"
  using set_pad [of k n] by auto

lemma no_T_isoYear: "c \<in> set (isoYear y) \<Longrightarrow> c \<noteq> CHR ''T''"
  by (auto simp: isoYear_def dest: no_T_pad split: if_splits)

lemma no_T_isoDate: "c \<in> set (isoDate d) \<Longrightarrow> c \<noteq> CHR ''T''"
  by (auto simp: isoDate_def Let_def dest: no_T_pad no_T_isoYear)

lemma split_T_0_toISOString: "split_T_0 (toISOString t) = isoDate (Day t)"
proof -
  have "takeWhile (\<lambda>c. c \<noteq> CHR ''T'') (isoDate (Day t) @ CHR ''T'' # r) = isoDate (Day t)" for r
    by (simp add: takeWhile_tail) (metis no_T_isoDate takeWhile_eq_all_conv)
  then show ?thesis by (simp add: split_T_0_def toISOString_def Let_def)
qed

lemma preset_range_eq:
  "\<not> isCustomPeriod w \<Longrightarrow> tz_changes w = [] \<Longrightarrow>
   getDateRange w = (isoDate (Day (clock w) - daysBack (selectedPeriodMonths w)), isoDate (Day (clock w)))"
  by (simp add: getDateRange_def Let_def setDate_getDate split_T_0_toISOString Day_minus_days)

lemma daysBack_table:
  "daysBack (Some 1) = 30" "daysBack (Some 3) = 90" "daysBack (Some 6) = 180"
  "daysBack (Some 12) = 365" "daysBack None = 30"
  by (simp_all add: daysBack_def daysMap_def)

lemma daysBack_unknown: "m \<notin> {1, 3, 6, 12} \<Longrightarrow> daysBack (Some m) = 30"
  by (simp add: daysBack_def daysMap_def)

lemma isoDate_19889: "isoDate 19889 = ''2024-06-15''" by code_simp
lemma isoDate_19859: "isoDate 19859 = ''2024-05-16''" by code_simp
lemma MakeDay_20240615: "MakeDay 2024 5 15 = 19889" by code_simp

lemma fetches_startBacktest_begin:
  "fetches (startBacktest_begin w) = fetches w @
     [\<lparr>endpoint = ''/backtest'',
       body = \<lparr>stocks = selection w, strategy = selectedStrategy w,
                target_percent = parseFloat (targetPercent w),
                stop_loss_percent = parseFloat (stopLossPercent w),
                start_date = fst (getDateRange w), end_date = snd (getDateRange w),
                timeframe = ''15min''\<rparr>\<rparr>]"
  by (simp add: startBacktest_begin_def showProgress_def animateProgress_def stringify_def
      selection_def Let_def)

lemma lastBacktestParams_startBacktest_begin:
  "lastBacktestParams (startBacktest_begin w) =
     Some \<lparr>stocks = selectedStocks w, strategy = selectedStrategy w,
            target_percent = parseFloat (targetPercent w),
            stop_loss_percent = parseFloat (stopLossPercent w),
            start_date = fst (getDateRange w), end_date = snd (getDateRange w),
            timeframe = ''15min''\<rparr>"
  by (simp add: startBacktest_begin_def showProgress_def animateProgress_def Let_def)

text \<open>
  In a zone whose offset never changes, the end date of \<^verbatim>\<open>getDateRange\<close> with a
  preset is the calendar date of the clock and the start date is the date \<open>daysBack\<close>
  days before it, where \<open>daysBack\<close> is 30, 90, 180 and 365 for 1, 3, 6 and 12 months
  and 30 for any other month count.  The calendar date is the one \<^verbatim>\<open>toISOString\<close>
  gives, that of UTC.  With the one-month preset and the clock within 2024-06-15 of
  UTC (the day \<open>MakeDay 2024 5 15\<close>: months count from 0) the request that goes out
  has start date 2024-05-16, end date 2024-06-15 and time frame 15min.
\<close>

lemma getDateRange_fixed_zone:
  assumes "\<not> isCustomPeriod w" and "tz_changes w = []"
  shows "snd (getDateRange w) = isoDate (Day (clock w)) \<and>
         fst (getDateRange w) = isoDate (Day (clock w) - daysBack (selectedPeriodMonths w)) \<and>
         daysBack (Some 1) = 30 \<and> daysBack (Some 3) = 90 \<and> daysBack (Some 6) = 180 \<and>
         daysBack (Some 12) = 365 \<and> daysBack None = 30 \<and>
         (\<forall>m. m \<notin> {1, 3, 6, 12} \<longrightarrow> daysBack (Some m) = 30) \<and>
         (selectedPeriodMonths w = Some 1 \<and> Day (clock w) = MakeDay 2024 5 15 \<longrightarrow>
            start_date (body (last (fetches (startBacktest_begin w)))) = ''2024-05-16'' \<and>
            end_date (body (last (fetches (startBacktest_begin w)))) = ''2024-06-15'' \<and>
            timeframe (body (last (fetches (startBacktest_begin w)))) = ''15min'')"
proof -
  note range = preset_range_eq [OF assms]
  have "start_date (body (last (fetches (startBacktest_begin w)))) = ''2024-05-16'' \<and>
        end_date (body (last (fetches (startBacktest_begin w)))) = ''2024-06-15'' \<and>
        timeframe (body (last (fetches (startBacktest_begin w)))) = ''15min''"
    if "selectedPeriodMonths w = Some 1" "Day (clock w) = MakeDay 2024 5 15"
    using that range
    by (simp add: fetches_startBacktest_begin daysBack_table MakeDay_20240615
        isoDate_19889 isoDate_19859)
  with range show ?thesis
    by (simp add: daysBack_table daysBack_unknown)
qed

lemma getDateRange_demo_page:
  "getDateRange demo_page = (''2024-05-16'', ''2024-06-15'') \<and>
   body (last (fetches (startBacktest_begin demo_page))) =
     \<lparr>stocks = [''TCS'', ''INFY''], strategy = ''hammer'', target_percent = Num 3,
      stop_loss_percent = Num 2, start_date = ''2024-05-16'', end_date = ''2024-06-15'',
      timeframe = ''15min''\<rparr>"
proof -
  have day: "Day (clock demo_page) = MakeDay 2024 5 15"
    by (simp add: demo_page_simps MakeDay_20240615 Day_def msPerDay_def)
  have range: "getDateRange demo_page = (''2024-05-16'', ''2024-06-15'')"
    using getDateRange_fixed_zone [of demo_page] day
    by (simp add: demo_page_simps daysBack_table MakeDay_20240615 isoDate_19889 isoDate_19859
        prod_eq_iff)
  then show ?thesis
    by (simp add: demo_page_simps fetches_startBacktest_begin selection_demo_page
        parseFloat_3 parseFloat_2)
qed

text \<open>The table of \<^verbatim>\<open>getStartDate\<close> in \<^verbatim>\<open>main.js\<close> has the same day counts under
  the keys 1 to 4: read with a month count, 3 gives 180 days and 6 and 12 give 30.\<close>

lemma main_daysBack_table:
  "main_daysBack (Some 1) = 30 \<and> main_daysBack (Some 2) = 90 \<and> main_daysBack (Some 3) = 180 \<and>
   main_daysBack (Some 4) = 365 \<and> main_daysBack (Some 6) = 30 \<and> main_daysBack (Some 12) = 30"
  by (simp add: main_daysBack_def)

text \<open>
  C2.  \<^verbatim>\<open>getDateRange\<close> counts the days back in local time and writes both dates
  in UTC, so the range is not always the user's day and the day \<open>daysBack\<close> days
  before it.  For a user in India at 03:00 on 15 June 2024 with the one-month preset,
  the request runs from 2024-05-15 to 2024-06-14, not from 2024-05-16 to 2024-06-15.
  For a user in New York in the evening of 20 March 2024, ten days after the clocks
  went forward, it runs from 2024-02-20 to 2024-03-20: 29 days, not 30.
\<close>

theorem getDateRange_off_by_one:
  "\<not> isCustomPeriod early_page \<and> selectedPeriodMonths early_page = Some 1 \<and>
   YearFromTime (LocalTime (tza early_page) (tz_changes early_page) (clock early_page)) = 2024 \<and>
   MonthFromTime (LocalTime (tza early_page) (tz_changes early_page) (clock early_page)) = 5 \<and>
   getDate (tza early_page) (tz_changes early_page) (clock early_page) = 15 \<and>
   start_date (body (last (fetches (startBacktest_begin early_page)))) = ''2024-05-15'' \<and>
   end_date (body (last (fetches (startBacktest_begin early_page)))) = ''2024-06-14'' \<and>
   \<not> isCustomPeriod new_york_page \<and> selectedPeriodMonths new_york_page = Some 1 \<and>
   MonthFromTime (LocalTime (tza new_york_page) (tz_changes new_york_page) (clock new_york_page)) = 2 \<and>
   getDate (tza new_york_page) (tz_changes new_york_page) (clock new_york_page) = 20 \<and>
   getDateRange new_york_page = (''2024-02-20'', ''2024-03-20'') \<and>
   isoDate (Day (clock new_york_page) - 30) = ''2024-02-19''"
  by code_simp

text \<open>
  C6.  With both dates present: when start is not before end, \<^verbatim>\<open>validateDates\<close>
  empties the end date and alerts the user, and in custom mode the button is then
  disabled; when start is before end, \<^verbatim>\<open>validateDates\<close> changes nothing, and in
  custom mode the request carries the two texts as they stand in the fields.
\<close>

theorem validateDates_custom:
  assumes "startDate w \<noteq> []" and "endDate w \<noteq> []"
  shows "(date_ge (newDate (startDate w)) (newDate (endDate w)) \<longrightarrow>
            endDate (validateDates w) = [] \<and> startDate (validateDates w) = startDate w \<and>
            alerts (validateDates w) = alerts w @ [''Start date must be before end date''] \<and>
            (isCustomPeriod w \<longrightarrow> startBacktestBtn_disabled (updateStartButton (validateDates w)))) \<and>
         (date_lt (newDate (startDate w)) (newDate (endDate w)) \<longrightarrow>
            validateDates w = w \<and>
            (isCustomPeriod w \<longrightarrow>
               getDateRange w = (startDate w, endDate w) \<and>
               start_date (body (last (fetches (startBacktest_begin w)))) = startDate w \<and>
               end_date (body (last (fetches (startBacktest_begin w)))) = endDate w))"
proof (intro conjI impI)
  assume ge: "date_ge (newDate (startDate w)) (newDate (endDate w))"
  with assms show "endDate (validateDates w) = []" "startDate (validateDates w) = startDate w"
    "alerts (validateDates w) = alerts w @ [''Start date must be before end date'']"
    by (simp_all add: validateDates_def)
  assume "isCustomPeriod w"
  with assms ge show "startBacktestBtn_disabled (updateStartButton (validateDates w))"
    by (simp add: disabled_updateStartButton isValid_iff validateDates_def)
next
  assume lt: "date_lt (newDate (startDate w)) (newDate (endDate w))"
  then have "\<not> date_ge (newDate (startDate w)) (newDate (endDate w))"
    by (cases "newDate (startDate w)"; cases "newDate (endDate w)") simp_all
  then show "validateDates w = w" by (simp add: validateDates_def)
  assume custom: "isCustomPeriod w"
  then show range: "getDateRange w = (startDate w, endDate w)" by (simp add: getDateRange_def)
  then show "start_date (body (last (fetches (startBacktest_begin w)))) = startDate w"
    "end_date (body (last (fetches (startBacktest_begin w)))) = endDate w"
    by (simp_all add: fetches_startBacktest_begin)
qed

theorem validateDates_custom_witness:
  "startDate (custom_page ''2024-06-10'' ''2024-06-01'') \<noteq> [] \<and>
   endDate (custom_page ''2024-06-10'' ''2024-06-01'') \<noteq> [] \<and>
   date_ge (newDate ''2024-06-10'') (newDate ''2024-06-01'') \<and>
   endDate (validateDates (custom_page ''2024-06-10'' ''2024-06-01'')) = [] \<and>
   startBacktestBtn_disabled (updateStartButton (validateDates (custom_page ''2024-06-10'' ''2024-06-01''))) \<and>
   date_lt (newDate ''2024-06-01'') (newDate ''2024-06-15'') \<and>
   start_date (body (last (fetches (startBacktest_begin (custom_page ''2024-06-01'' ''2024-06-15''))))) = ''2024-06-01'' \<and>
   end_date (body (last (fetches (startBacktest_begin (custom_page ''2024-06-01'' ''2024-06-15''))))) = ''2024-06-15''"
  using validateDates_custom [of "custom_page ''2024-06-10'' ''2024-06-01''"]
    validateDates_custom [of "custom_page ''2024-06-01'' ''2024-06-15''"]
  by (simp add: custom_page_simps newDate_0601 newDate_0610 newDate_0615)

subsection \<open>Runs and their progress display\<close>

lemma startBacktest_begin_fields:
  "alerts (startBacktest_begin w) = alerts w"
  "arrays (startBacktest_begin w) = arrays w"
  "lastBacktestResults (startBacktest_begin w) = lastBacktestResults w"
  "json_downloads (startBacktest_begin w) = json_downloads w"
  "progressInterval (startBacktest_begin w) = Some (Suc (timer_count w))"
  "timer_count (startBacktest_begin w) = Suc (timer_count w)"
  "timers (startBacktest_begin w) = (timers w)(Suc (timer_count w) \<mapsto> 0)"
  by (simp_all add: startBacktest_begin_def showProgress_def animateProgress_def Let_def)

lemma hideProgress_fields:
  "alerts (hideProgress w) = alerts w"
  "arrays (hideProgress w) = arrays w"
  "fetches (hideProgress w) = fetches w"
  "lastBacktestParams (hideProgress w) = lastBacktestParams w"
  "lastBacktestResults (hideProgress w) = lastBacktestResults w"
  "json_downloads (hideProgress w) = json_downloads w"
  "progressFill_width (hideProgress w) = 100"
  by (simp_all add: hideProgress_def Let_def split: option.split)

lemma timers_hideProgress:
  "timers (hideProgress w) =
     (case progressInterval w of None \<Rightarrow> timers w
      | Some i \<Rightarrow> if i \<noteq> 0 then (timers w)(i := None) else timers w)"
  by (simp add: hideProgress_def Let_def split: option.split)

lemma showError_fields:
  "arrays (showError msg w) = arrays w"
  "fetches (showError msg w) = fetches w"
  "lastBacktestParams (showError msg w) = lastBacktestParams w"
  "lastBacktestResults (showError msg w) = lastBacktestResults w"
  "json_downloads (showError msg w) = json_downloads w"
  "progressFill_width (showError msg w) = 100"
  "timers (showError msg w) = timers (hideProgress w)"
  by (simp_all add: showError_def Let_def hideProgress_fields)

lemma displayResults_fields:
  "alerts (displayResults rs w) = alerts w"
  "arrays (displayResults rs w) = arrays w"
  "fetches (displayResults rs w) = fetches w"
  "lastBacktestParams (displayResults rs w) = lastBacktestParams w"
  "lastBacktestResults (displayResults rs w) = lastBacktestResults w"
  "json_downloads (displayResults rs w) = json_downloads w"
  "progressFill_width (displayResults rs w) = 100"
  "timers (displayResults rs w) = timers (hideProgress w)"
  by (simp_all add: displayResults_def renderTradesTable_def renderSummary_def Let_def
      hideProgress_fields split: option.split)

text \<open>When the answer is not a 2xx answer, the run ends in \<^verbatim>\<open>showError\<close>.\<close>

lemma startBacktest_resume_failed:
  "\<forall>rs. resp \<noteq> Ok rs \<Longrightarrow> \<exists>msg. startBacktest_resume resp w = showError msg w"
  by (cases resp) (auto simp: startBacktest_resume_def)

lemma startBacktest_resume_Ok:
  "startBacktest_resume (Ok rs) w = displayResults rs (w\<lparr>lastBacktestResults := Some rs\<rparr>)"
  by (simp add: startBacktest_resume_def)

lemma startBacktest_resume_progress:
  "progressFill_width (startBacktest_resume resp w) = 100 \<and>
   timers (startBacktest_resume resp w) = timers (hideProgress w) \<and>
   fetches (startBacktest_resume resp w) = fetches w \<and>
   arrays (startBacktest_resume resp w) = arrays w \<and>
   lastBacktestParams (startBacktest_resume resp w) = lastBacktestParams w"
proof (cases resp)
  case (Ok rs)
  then show ?thesis
    by (simp add: startBacktest_resume_Ok displayResults_fields timers_hideProgress
        split: option.split)
next
  case (Not_ok d)
  then show ?thesis by (simp add: startBacktest_resume_def showError_fields)
next
  case (Transport_error m)
  then show ?thesis by (simp add: startBacktest_resume_def showError_fields)
qed

text \<open>
  C10.  \<^verbatim>\<open>startBacktest\<close> stores the request before the request goes out, and
  \<^verbatim>\<open>downloadExcel\<close> asks only whether a request is stored.  So after a run that
  failed, \<^verbatim>\<open>downloadExcel\<close> raises no alert and sends the request of that run to
  the report endpoint.  \<^verbatim>\<open>downloadJSON\<close> asks for a stored result instead: a
  failed run stores none, and if none was stored before, it alerts and hands over no
  file.
\<close>

theorem downloadExcel_after_failed_run:
  assumes "\<forall>rs. resp \<noteq> Ok rs"
  shows "fetches (downloadExcel_begin (startBacktest_resume resp (startBacktest_begin w))) =
           fetches (startBacktest_resume resp (startBacktest_begin w)) @
             [\<lparr>endpoint = ''/backtest/download'',
               body = body (last (fetches (startBacktest_begin w)))\<rparr>] \<and>
         alerts (downloadExcel_begin (startBacktest_resume resp (startBacktest_begin w))) =
           alerts (startBacktest_resume resp (startBacktest_begin w)) \<and>
         lastBacktestResults (startBacktest_resume resp (startBacktest_begin w)) =
           lastBacktestResults w \<and>
         (lastBacktestResults w = None \<longrightarrow>
            json_downloads (downloadJSON (startBacktest_resume resp (startBacktest_begin w))) =
              json_downloads w \<and>
            alerts (downloadJSON (startBacktest_resume resp (startBacktest_begin w))) =
              alerts (startBacktest_resume resp (startBacktest_begin w)) @
                [''Please run a backtest first''])"
proof -
  let ?w1 = "startBacktest_begin w"
  from startBacktest_resume_failed [OF assms]
  obtain msg where failed: "startBacktest_resume resp ?w1 = showError msg ?w1" by blast
  have params: "lastBacktestParams (showError msg ?w1) = lastBacktestParams ?w1"
    and mem: "arrays (showError msg ?w1) = arrays w"
    and res: "lastBacktestResults (showError msg ?w1) = lastBacktestResults w"
    and dl: "json_downloads (showError msg ?w1) = json_downloads w"
    by (simp_all add: showError_fields startBacktest_begin_fields)
  have excel: "fetches (downloadExcel_begin (showError msg ?w1)) =
      fetches (showError msg ?w1) @
        [\<lparr>endpoint = ''/backtest/download'', body = body (last (fetches ?w1))\<rparr>]"
    "alerts (downloadExcel_begin (showError msg ?w1)) = alerts (showError msg ?w1)"
    by (simp_all add: downloadExcel_begin_def params mem lastBacktestParams_startBacktest_begin
        fetches_startBacktest_begin stringify_def selection_def)
  have json: "json_downloads (downloadJSON (showError msg ?w1)) = json_downloads w \<and>
      alerts (downloadJSON (showError msg ?w1)) =
        alerts (showError msg ?w1) @ [''Please run a backtest first'']"
    if "lastBacktestResults w = None"
    using that by (simp add: downloadJSON_def res dl)
  from excel json res show ?thesis by (simp add: failed)
qed

theorem downloadExcel_after_failed_run_witness:
  "lastBacktestResults demo_page = None \<and>
   map endpoint (fetches (downloadExcel_begin
     (startBacktest_resume (Not_ok (Some ''Server error'')) (startBacktest_begin demo_page)))) =
     [''/backtest'', ''/backtest/download''] \<and>
   map (stocks \<circ> body) (fetches (downloadExcel_begin
     (startBacktest_resume (Not_ok (Some ''Server error'')) (startBacktest_begin demo_page)))) =
     [[''TCS'', ''INFY''], [''TCS'', ''INFY'']] \<and>
   json_downloads (downloadJSON
     (startBacktest_resume (Not_ok (Some ''Server error'')) (startBacktest_begin demo_page))) = []"
  using downloadExcel_after_failed_run [of "Not_ok (Some ''Server error'')" demo_page]
  by (simp add: demo_page_simps startBacktest_resume_progress fetches_startBacktest_begin
      selection_demo_page)

lemma random_increment: "0 \<le> r \<Longrightarrow> r < 1 \<Longrightarrow> 5 \<le> r * 15 + 5 \<and> r * 15 + 5 < (20::real)"
  by simp

lemma tick_live:
  assumes "timers v i = Some p"
  shows "progressFill_width (tick i r v) = min (p + (r * 15 + 5)) 95"
    and "timers (tick i r v) =
       (if 95 \<le> p + (r * 15 + 5) then (timers v)(i := None)
        else (timers v)(i \<mapsto> p + (r * 15 + 5)))"
    and "progressInterval (tick i r v) = progressInterval v"
  using assms by (simp_all add: tick_def Let_def min_def)

lemma tick_dead: "timers v i = None \<Longrightarrow> tick i r v = v"
  by (simp add: tick_def)

text \<open>What holds of the ticker \<open>i\<close> between its ticks.\<close>

lemma tick_invariant:
  assumes "0 \<le> r" "r < 1"
    and "\<forall>p. timers v i = Some p \<longrightarrow> 0 \<le> p \<and> p < 95"
    and "timers v i = None \<longrightarrow> 5 \<le> progressFill_width v \<and> progressFill_width v \<le> 95"
  shows "(\<forall>p. timers (tick i r v) i = Some p \<longrightarrow> 0 \<le> p \<and> p < 95) \<and>
         5 \<le> progressFill_width (tick i r v) \<and> progressFill_width (tick i r v) \<le> 95"
proof (cases "timers v i")
  case None
  with assms show ?thesis by (simp add: tick_dead)
next
  case (Some p)
  with assms have "0 \<le> p" "p < 95" by simp_all
  with assms(1,2) show ?thesis
    by (simp add: tick_live [OF Some] min_def)
qed

lemma fold_tick_invariant:
  assumes "\<forall>r\<in>set rs. 0 \<le> r \<and> r < 1"
    and "\<forall>p. timers v i = Some p \<longrightarrow> 0 \<le> p \<and> p < 95"
    and "timers v i = None \<longrightarrow> 5 \<le> progressFill_width v \<and> progressFill_width v \<le> 95"
  shows "(\<forall>p. timers (fold (tick i) rs v) i = Some p \<longrightarrow> 0 \<le> p \<and> p < 95) \<and>
         (rs \<noteq> [] \<longrightarrow> 5 \<le> progressFill_width (fold (tick i) rs v) \<and>
                     progressFill_width (fold (tick i) rs v) \<le> 95)"
  using assms
proof (induction rs arbitrary: v)
  case Nil
  then show ?case by simp
next
  case (Cons r rs)
  from Cons.prems have r: "0 \<le> r" "r < 1" by simp_all
  note step = tick_invariant [OF r Cons.prems(2,3)]
  from Cons.prems(1) have rest: "\<forall>r\<in>set rs. 0 \<le> r \<and> r < 1" by simp
  from step have a: "\<forall>p. timers (tick i r v) i = Some p \<longrightarrow> 0 \<le> p \<and> p < 95"
    and b: "timers (tick i r v) i = None \<longrightarrow>
        5 \<le> progressFill_width (tick i r v) \<and> progressFill_width (tick i r v) \<le> 95"
    by simp_all
  from Cons.IH [OF rest a b] step show ?case
    by (cases rs) simp_all
qed

lemma progressInterval_fold_tick:
  "progressInterval (fold (tick i) rs v) = progressInterval v"
proof (induction rs arbitrary: v)
  case Nil
  then show ?case by simp
next
  case (Cons r rs)
  have "progressInterval (tick i r v) = progressInterval v"
    by (cases "timers v i") (simp_all add: tick_dead tick_live)
  with Cons.IH show ?case by simp
qed

text \<open>
  A run whose wait holds nothing but ticks of its own ticker.  That ticker begins at
  0.  Each tick adds \<^verbatim>\<open>Math.random() * 15 + 5\<close>, an amount from 5 up to 20, and
  caps the value at 95; a ticker that reaches 95 clears itself.  So while the run
  waits, the value stays below 95 and the bar never passes 95.  When the response
  arrives, success or failure, the bar is set to 100 and the ticker is cleared.
\<close>

lemma progress_ticker:
  assumes "\<forall>r\<in>set rs. 0 \<le> r \<and> r < 1"
  shows "timers (startBacktest_begin w) (Suc (timer_count w)) = Some 0 \<and>
         (\<forall>v p r. timers v (Suc (timer_count w)) = Some p \<and> 0 \<le> r \<and> r < 1 \<longrightarrow>
            5 \<le> r * 15 + 5 \<and> r * 15 + 5 < 20 \<and>
            progressFill_width (tick (Suc (timer_count w)) r v) = min (p + (r * 15 + 5)) 95 \<and>
            timers (tick (Suc (timer_count w)) r v) (Suc (timer_count w)) =
              (if 95 \<le> p + (r * 15 + 5) then None else Some (p + (r * 15 + 5)))) \<and>
         (\<forall>p. timers (fold (tick (Suc (timer_count w))) rs (startBacktest_begin w))
                 (Suc (timer_count w)) = Some p \<longrightarrow> 0 \<le> p \<and> p < 95) \<and>
         (rs \<noteq> [] \<longrightarrow>
            progressFill_width (fold (tick (Suc (timer_count w))) rs (startBacktest_begin w)) \<le> 95) \<and>
         progressFill_width (startBacktest_resume resp
            (fold (tick (Suc (timer_count w))) rs (startBacktest_begin w))) = 100 \<and>
         timers (startBacktest_resume resp
            (fold (tick (Suc (timer_count w))) rs (startBacktest_begin w))) (Suc (timer_count w)) = None"
proof -
  let ?i = "Suc (timer_count w)"
  let ?w1 = "startBacktest_begin w"
  let ?w2 = "fold (tick ?i) rs ?w1"
  have start: "timers ?w1 ?i = Some 0"
    by (simp add: startBacktest_begin_fields)
  have step: "\<forall>v p r. timers v ?i = Some p \<and> 0 \<le> r \<and> r < 1 \<longrightarrow>
      5 \<le> r * 15 + 5 \<and> r * 15 + 5 < 20 \<and>
      progressFill_width (tick ?i r v) = min (p + (r * 15 + 5)) 95 \<and>
      timers (tick ?i r v) ?i = (if 95 \<le> p + (r * 15 + 5) then None else Some (p + (r * 15 + 5)))"
    by (simp add: tick_live)
  have inv: "(\<forall>p. timers ?w2 ?i = Some p \<longrightarrow> 0 \<le> p \<and> p < 95) \<and>
      (rs \<noteq> [] \<longrightarrow> 5 \<le> progressFill_width ?w2 \<and> progressFill_width ?w2 \<le> 95)"
    by (rule fold_tick_invariant [OF assms]) (simp_all add: start)
  have handle: "progressInterval ?w2 = Some ?i"
    by (simp add: progressInterval_fold_tick startBacktest_begin_fields)
  have fin: "progressFill_width (startBacktest_resume resp ?w2) = 100"
    "timers (startBacktest_resume resp ?w2) ?i = None"
    by (simp_all add: startBacktest_resume_progress timers_hideProgress handle)
  from start step inv fin show ?thesis by simp
qed

lemma progress_ticker_example:
  "(0::real) \<le> 1/2 \<and> (1/2::real) < 1 \<and> (0::real) \<le> 9/10 \<and> (9/10::real) < 1 \<and>
   progressFill_width (fold (tick 1) [1/2, 9/10] (startBacktest_begin demo_page)) = 31 \<and>
   timers (fold (tick 1) [1/2, 9/10] (startBacktest_begin demo_page)) 1 = Some 31 \<and>
   progressFill_width (startBacktest_resume (Not_ok None)
     (fold (tick 1) [1/2, 9/10] (startBacktest_begin demo_page))) = 100 \<and>
   timers (startBacktest_resume (Not_ok None)
     (fold (tick 1) [1/2, 9/10] (startBacktest_begin demo_page))) 1 = None"
proof -
  let ?w1 = "startBacktest_begin demo_page"
  have t0: "timers ?w1 1 = Some 0"
    by (simp add: startBacktest_begin_fields demo_page_simps)
  have t1: "timers (tick 1 (1/2) ?w1) 1 = Some (25/2)"
    using tick_live [OF t0, of "1/2"] by simp
  have t2: "timers (tick 1 (9/10) (tick 1 (1/2) ?w1)) 1 = Some 31"
    "progressFill_width (tick 1 (9/10) (tick 1 (1/2) ?w1)) = 31"
    using tick_live [OF t1, of "9/10"] by simp_all
  from t2 show ?thesis
    using progress_ticker [of "[1/2, 9/10]" demo_page "Not_ok None"]
    by (simp add: demo_page_simps)
qed

text \<open>
  C7.  The ticker can outlive its run.  \<^verbatim>\<open>UIHandler\<close> keeps one handle, that of
  the ticker started last: when the demo user starts a second run after one tick of
  the first, the response clears the second ticker only; the first is still alive at
  12.5 after the bar was set to 100, and its next tick draws the bar at 25.  In
  \<^verbatim>\<open>main.js\<close> no handle is kept and \<^verbatim>\<open>hideProgress\<close> only hides the section:
  after a single run has completed, its ticker is still alive, the bar stands at 12.5
  and not at 100, and the next tick moves it to 25.
\<close>

theorem ticker_outlives_session:
  "timers (startBacktest_resume (Ok bare_results)
     (startBacktest_begin (tick 1 (1/2) (startBacktest_begin demo_page)))) 1 = Some (25/2) \<and>
   progressFill_width (startBacktest_resume (Ok bare_results)
     (startBacktest_begin (tick 1 (1/2) (startBacktest_begin demo_page)))) = 100 \<and>
   progressFill_width (tick 1 (1/2) (startBacktest_resume (Ok bare_results)
     (startBacktest_begin (tick 1 (1/2) (startBacktest_begin demo_page))))) = 25 \<and>
   m_timers (startHammerAnalysis_resume (Main_ok bare_results)
     (main_tick 1 (1/2) (startHammerAnalysis_begin main_demo_page))) 1 = Some (25/2, 1) \<and>
   map_option ps_fill_width (sections (startHammerAnalysis_resume (Main_ok bare_results)
     (main_tick 1 (1/2) (startHammerAnalysis_begin main_demo_page))) 1) = Some (25/2) \<and>
   map_option ps_fill_width (sections (main_tick 1 (1/2) (startHammerAnalysis_resume (Main_ok bare_results)
     (main_tick 1 (1/2) (startHammerAnalysis_begin main_demo_page)))) 1) = Some 25"
  by code_simp





subsection \<open>Display and export of the results\<close>

lemma resultsTableBody_displayResults:
  "map row_trade (resultsTableBody (displayResults rs w)) = (case trades rs of None \<Rightarrow> [] | Some l \<Rightarrow> l)"
  by (simp add: displayResults_def renderTradesTable_def Let_def comp_def split: option.split)

lemma resultsSummary_displayResults:
  "resultsSummary (displayResults rs w) =
     [target_hit_rate rs, target_hit_count rs, stop_loss_rate rs, stop_loss_count rs,
      eod_exit_count rs, total_patterns rs, avg_return rs]"
  by (simp add: displayResults_def renderTradesTable_def renderSummary_def Let_def
      split: option.split)

lemma or_num_le: "d \<le> b \<Longrightarrow> min (or_num x d) b \<le> b"
  by simp

lemma or_num_ge: "x = Some v \<Longrightarrow> lo \<le> v \<Longrightarrow> lo \<le> d \<Longrightarrow> lo \<le> b \<Longrightarrow> lo \<le> min (or_num x d) b"
  by (simp add: or_num_def)

lemma trade_to_row_held:
  "cell_minutes_held (trade_to_row t) = min (or_num (minutes_held t) 0) 45"
  "cell_candles_held (trade_to_row t) = min (or_num (candles_held t) 1) 3"
  by (simp_all add: trade_to_row_def Let_def)

text \<open>
  C5.  The cap on the hold times is computed for the table only.
  \<^verbatim>\<open>createTradesTable\<close> shows the minutes capped at 45 (0 when missing) and the
  candles capped at 3 (1 when missing), so minutes of at least 0 and candles of at
  least 1 appear within 0 to 45 and 1 to 3; the table of \<^verbatim>\<open>UIHandler\<close> shows each
  trade of the payload as it is.  Neither changes the payload: after a run that
  succeeded and was displayed, \<^verbatim>\<open>downloadJSON\<close> hands over one file, named after
  the request, holding the payload as the server sent it, all trades and their hold
  times included.
\<close>

theorem export_unclamped:
  "json_downloads (downloadJSON (startBacktest_resume (Ok rs) (startBacktest_begin w))) =
     json_downloads w @
       [(''backtest_'' @ selectedStrategy w @ ''_'' @ fst (getDateRange w) @ ''_to_'' @
         snd (getDateRange w) @ ''.json'', rs)] \<and>
   lastBacktestResults (startBacktest_resume (Ok rs) (startBacktest_begin w)) = Some rs \<and>
   map row_trade (resultsTableBody (startBacktest_resume (Ok rs) (startBacktest_begin w))) =
     (case trades rs of None \<Rightarrow> [] | Some l \<Rightarrow> l) \<and>
   (\<forall>t. cell_minutes_held (trade_to_row t) = min (or_num (minutes_held t) 0) 45 \<and>
        cell_candles_held (trade_to_row t) = min (or_num (candles_held t) 1) 3 \<and>
        cell_minutes_held (trade_to_row t) \<le> 45 \<and> cell_candles_held (trade_to_row t) \<le> 3 \<and>
        (\<forall>m. minutes_held t = Some m \<and> 0 \<le> m \<longrightarrow> 0 \<le> cell_minutes_held (trade_to_row t)) \<and>
        (\<forall>c. candles_held t = Some c \<and> 1 \<le> c \<longrightarrow> 1 \<le> cell_candles_held (trade_to_row t)))"
proof -
  let ?w1 = "startBacktest_begin w"
  let ?w3 = "startBacktest_resume (Ok rs) ?w1"
  have stored: "lastBacktestResults ?w3 = Some rs"
    by (simp add: startBacktest_resume_Ok displayResults_fields)
  have params: "lastBacktestParams ?w3 = lastBacktestParams ?w1"
    by (simp add: startBacktest_resume_progress)
  have files: "json_downloads ?w3 = json_downloads w"
    by (simp add: startBacktest_resume_Ok displayResults_fields startBacktest_begin_fields)
  have export: "json_downloads (downloadJSON ?w3) =
      json_downloads w @
        [(''backtest_'' @ selectedStrategy w @ ''_'' @ fst (getDateRange w) @ ''_to_'' @
          snd (getDateRange w) @ ''.json'', rs)]"
    by (simp add: downloadJSON_def stored params files lastBacktestParams_startBacktest_begin)
  have table: "map row_trade (resultsTableBody ?w3) = (case trades rs of None \<Rightarrow> [] | Some l \<Rightarrow> l)"
    by (simp add: startBacktest_resume_Ok resultsTableBody_displayResults)
  have clamp: "\<forall>t. cell_minutes_held (trade_to_row t) = min (or_num (minutes_held t) 0) 45 \<and>
        cell_candles_held (trade_to_row t) = min (or_num (candles_held t) 1) 3 \<and>
        cell_minutes_held (trade_to_row t) \<le> 45 \<and> cell_candles_held (trade_to_row t) \<le> 3 \<and>
        (\<forall>m. minutes_held t = Some m \<and> 0 \<le> m \<longrightarrow> 0 \<le> cell_minutes_held (trade_to_row t)) \<and>
        (\<forall>c. candles_held t = Some c \<and> 1 \<le> c \<longrightarrow> 1 \<le> cell_candles_held (trade_to_row t))"
    by (simp add: trade_to_row_held or_num_def)
  show ?thesis
    by (rule conjI [OF export conjI [OF stored conjI [OF table clamp]]])
qed

theorem export_unclamped_witness:
  "minutes_held long_trade = Some 120 \<and> (0::real) \<le> 120 \<and>
   candles_held long_trade = Some 8 \<and> (1::real) \<le> 8 \<and>
   cell_minutes_held (trade_to_row long_trade) = 45 \<and>
   cell_candles_held (trade_to_row long_trade) = 3 \<and>
   map (\<lambda>(f, d). (f, map minutes_held (the (trades d)), map candles_held (the (trades d))))
     (json_downloads (downloadJSON (startBacktest_resume (Ok long_results) (startBacktest_begin demo_page)))) =
     [(''backtest_hammer_2024-05-16_to_2024-06-15.json'', [Some 120], [Some 8])]"
proof -
  have range: "getDateRange demo_page = (''2024-05-16'', ''2024-06-15'')"
    using preset_range_eq [of demo_page]
    by (simp add: demo_page_simps daysBack_table isoDate_19889 isoDate_19859 Day_def msPerDay_def)
  have held: "minutes_held long_trade = Some 120" "candles_held long_trade = Some 8"
    by (simp_all add: long_trade_def)
  from export_unclamped [of long_results demo_page] range held show ?thesis
    by (simp add: demo_page_simps long_results_def bare_results_def or_num_def)
qed

lemma bare_trade_fields:
  "entry_price bare_trade = None" "exit_price bare_trade = None" "points_gained bare_trade = None"
  "percentage_gain bare_trade = None" "minutes_held bare_trade = None"
  "candles_held bare_trade = None" "outcome bare_trade = None"
  by (simp_all add: bare_trade_def)

text \<open>
  C8 (as amended).  In the display of \<^verbatim>\<open>main.js\<close> a missing number is shown as
  0, except the candles held, shown as 1, and the echoed target and stop-loss percent,
  shown as 3 and 2 (and the stocks analysed, shown as the size of the selection); a
  missing outcome is shown as unknown.  The display is a total function of the
  payload: missing fields raise nothing.
\<close>

theorem display_defaults:
  "(profit_rate rs = None \<longrightarrow> card_profit_rate (main_displayResults rs n) = 0) \<and>
   (safe_rate rs = None \<longrightarrow> card_safe_rate (main_displayResults rs n) = 0) \<and>
   (stop_loss_rate rs = None \<longrightarrow> card_stop_loss_rate (main_displayResults rs n) = 0) \<and>
   (total_patterns rs = None \<longrightarrow> card_total_patterns (main_displayResults rs n) = 0) \<and>
   (res_target_percent rs = None \<longrightarrow> card_target_percent (main_displayResults rs n) = 3) \<and>
   (res_stop_loss_percent rs = None \<longrightarrow> card_stop_loss_percent (main_displayResults rs n) = 2) \<and>
   (stocks_analyzed rs = None \<longrightarrow> detail_stocks_analyzed (main_displayResults rs n) = real n) \<and>
   (entry_price t = None \<longrightarrow> cell_entry_price (trade_to_row t) = 0) \<and>
   (exit_price t = None \<longrightarrow> cell_exit_price (trade_to_row t) = 0) \<and>
   (points_gained t = None \<longrightarrow> cell_points_gained (trade_to_row t) = 0) \<and>
   (percentage_gain t = None \<longrightarrow> cell_percentage_gain (trade_to_row t) = 0) \<and>
   (minutes_held t = None \<longrightarrow> cell_minutes_held (trade_to_row t) = 0) \<and>
   (candles_held t = None \<longrightarrow> cell_candles_held (trade_to_row t) = 1) \<and>
   (outcome t = None \<longrightarrow> cell_outcome (trade_to_row t) = ''unknown'') \<and>
   (detailed_trades rs = Some ts \<and> ts \<noteq> [] \<longrightarrow>
      tradesTable (main_displayResults rs n) =
        Trades_table (map trade_to_row (take 25 ts)) (length ts) (25 < length ts))"
  by (simp add: main_displayResults_def createTradesTable_def trade_to_row_def or_num_def
      or_str_def Let_def)

theorem display_defaults_witness:
  "main_displayResults bare_results 2 =
     \<lparr>card_profit_rate = 0, card_target_percent = 3, card_safe_rate = 0, card_stop_loss_rate = 0,
      card_stop_loss_percent = 2, card_total_patterns = 0, detail_strategy = ''Hammer Pattern'',
      detail_period = ''Custom Range'', detail_timeframe = ''15 Minutes'',
      detail_stocks_analyzed = 2,
      tradesTable = Trades_table
        [\<lparr>cell_stock = Some ''TCS'', cell_pattern_time = ''N/A'', cell_exit_time = ''N/A'',
          cell_entry_price = 0, cell_exit_price = 0, cell_outcome = ''unknown'',
          cell_outcome_color = ''#ffd43b'', cell_points_gained = 0,
          cell_points_color = ''#51cf66'', cell_percentage_gain = 0, cell_minutes_held = 0,
          cell_candles_held = 1\<rparr>] 1 False\<rparr>"
proof -
  have row: "trade_to_row bare_trade =
      \<lparr>cell_stock = Some ''TCS'', cell_pattern_time = ''N/A'', cell_exit_time = ''N/A'',
       cell_entry_price = 0, cell_exit_price = 0, cell_outcome = ''unknown'',
       cell_outcome_color = ''#ffd43b'', cell_points_gained = 0,
       cell_points_color = ''#51cf66'', cell_percentage_gain = 0, cell_minutes_held = 0,
       cell_candles_held = 1\<rparr>"
    using display_defaults [of bare_results 2 bare_trade "[bare_trade]"]
    by (simp add: bare_trade_fields)
       (simp add: trade_to_row_def bare_trade_def or_num_def or_str_def Let_def)
  from display_defaults [of bare_results 2 bare_trade "[bare_trade]"] row show ?thesis
    by (simp add: bare_results_def main_displayResults_def or_num_def or_str_def)
qed

text \<open>
  C8 as stated fails: for a payload without any optional number, the candles held are
  shown as 1 and the target percent as 3, and the summary of \<^verbatim>\<open>UIHandler\<close> shows
  the missing fields as they are, not as 0.
\<close>

theorem display_defaults_counterexample:
  "\<not> cell_candles_held (trade_to_row bare_trade) = 0 \<and>
   \<not> card_target_percent (main_displayResults bare_results 2) = 0 \<and>
   \<not> resultsSummary (displayResults bare_results demo_page) = replicate 7 (Some 0)"
  by (simp add: trade_to_row_def bare_trade_def or_num_def Let_def main_displayResults_def
      bare_results_def resultsSummary_displayResults numeral_eq_Suc)

end
